theory Spec2Isabelle
  imports Complex_Main "HOL-Library.AList"
begin

section \<open>Python runtime: exceptions, printed output, XML elements, files\<close>

text \<open>
  The scripts are Python. Exceptions are values of \<open>exn\<close>; a statement sequence is a
  computation of type \<open>'a io\<close>: the lines printed so far, and either the exception that
  ended it (\<open>Inl\<close>) or its result (\<open>Inr\<close>). What was printed before an exception stays
  printed. Python floats are idealised as \<open>real\<close> (no rounding, no inf or nan); the
  conversions \<open>float(s)\<close> and \<open>int(s)\<close> of a string are parameters \<open>pf\<close> and \<open>pint\<close>
  that return \<open>None\<close> where Python raises ValueError.

  A printed line is its format string (leading newlines and non-ASCII pictographs left
  out, arrows written \<open>-\<close>) with the values that are interpolated into it; \<open>time.sleep(n)\<close> is recorded in the same trace.
\<close>

datatype exn = ParseError | OSError | TypeError | ValueError | KeyError
  | ZeroDivisionError | TraCIException | OtherException

datatype field = S string | F real | I int | E exn | PyNone

datatype out = Line string "field list" | Sleep nat

type_synonym 'a io = "out list \<times> (exn + 'a)"

definition io_return :: "'a \<Rightarrow> 'a io" where
  "io_return x = ([], Inr x)"

definition io_raise :: "exn \<Rightarrow> 'a io" where
  "io_raise e = ([], Inl e)"

definition io_print :: "string \<Rightarrow> field list \<Rightarrow> unit io" where
  "io_print fmt vs = ([Line fmt vs], Inr ())"

definition io_lift :: "exn + 'a \<Rightarrow> 'a io" where
  "io_lift r = ([], r)"

text \<open>\<open>print("=" * 80)\<close> and the like: a line of \<open>n\<close> copies of one character.\<close>

definition hrule :: "char \<Rightarrow> nat \<Rightarrow> unit io" where
  "hrule c n = io_print (replicate n c) []"

definition io_sleep :: "nat \<Rightarrow> unit io" where
  "io_sleep n = ([Sleep n], Inr ())"

definition io_bind :: "'a io \<Rightarrow> ('a \<Rightarrow> 'b io) \<Rightarrow> 'b io" where
  "io_bind m f =
     (case m of
        (o1, Inl e) \<Rightarrow> (o1, Inl e)
      | (o1, Inr x) \<Rightarrow> (case f x of (o2, r) \<Rightarrow> (o1 @ o2, r)))"

definition io_then :: "'a io \<Rightarrow> 'b io \<Rightarrow> 'b io" where
  "io_then m k = io_bind m (\<lambda>_. k)"

text \<open>\<open>try: m except ... as e: h e\<close>, for handlers that catch every \<open>exn\<close>.\<close>

definition io_try :: "'a io \<Rightarrow> (exn \<Rightarrow> 'a io) \<Rightarrow> 'a io" where
  "io_try m h =
     (case m of
        (o1, Inl e) \<Rightarrow> (case h e of (o2, r) \<Rightarrow> (o1 @ o2, r))
      | (o1, Inr x) \<Rightarrow> (o1, Inr x))"

text \<open>A \<open>for\<close> loop that threads the loop-carried variables \<open>s\<close> through its body.\<close>

fun io_fold :: "('a \<Rightarrow> 's \<Rightarrow> 's io) \<Rightarrow> 'a list \<Rightarrow> 's \<Rightarrow> 's io" where
  "io_fold f [] s = io_return s"
| "io_fold f (x # xs) s = io_bind (f x s) (io_fold f xs)"

definition io_foreach :: "('a \<Rightarrow> unit io) \<Rightarrow> 'a list \<Rightarrow> unit io" where
  "io_foreach f xs = io_fold (\<lambda>x _. f x) xs ()"

text \<open>An ElementTree element: tag, attributes, child elements.\<close>

datatype element = Element (tag: string) (attrib: "(string \<times> string) list")
  (children: "element list")

definition findall :: "element \<Rightarrow> string \<Rightarrow> element list" where
  "findall e t = filter (\<lambda>c. tag c = t) (children e)"

definition find_child :: "element \<Rightarrow> string \<Rightarrow> element option" where
  "find_child e t = (case findall e t of [] \<Rightarrow> None | c # _ \<Rightarrow> Some c)"

definition get_attr :: "element \<Rightarrow> string \<Rightarrow> string option" where
  "get_attr e k = map_of (attrib e) k"

text \<open>
  \<open>float(e.get(k))\<close>: TypeError on a missing attribute, ValueError on text that is not
  a number. \<open>float(e.get(k, d))\<close> with a numeric default \<open>d\<close> converts the default.
\<close>

definition py_float :: "(string \<Rightarrow> real option) \<Rightarrow> string option \<Rightarrow> real io" where
  "py_float pf v =
     (case v of
        None \<Rightarrow> io_raise TypeError
      | Some s \<Rightarrow> (case pf s of None \<Rightarrow> io_raise ValueError | Some r \<Rightarrow> io_return r))"

definition py_float_default ::
  "(string \<Rightarrow> real option) \<Rightarrow> string option \<Rightarrow> real \<Rightarrow> real io" where
  "py_float_default pf v d =
     (case v of
        None \<Rightarrow> io_return d
      | Some s \<Rightarrow> (case pf s of None \<Rightarrow> io_raise ValueError | Some r \<Rightarrow> io_return r))"

definition py_int_default ::
  "(string \<Rightarrow> int option) \<Rightarrow> string option \<Rightarrow> int \<Rightarrow> int io" where
  "py_int_default pint v d =
     (case v of
        None \<Rightarrow> io_return d
      | Some s \<Rightarrow> (case pint s of None \<Rightarrow> io_raise ValueError | Some r \<Rightarrow> io_return r))"

text \<open>
  A value interpolated with a width (\<open>{v:8}\<close>): \<open>None\<close> does not accept a format
  specification and raises TypeError. Without a width \<open>None\<close> prints as text.
\<close>

definition fmt_width :: "string option \<Rightarrow> field io" where
  "fmt_width v = (case v of None \<Rightarrow> io_raise TypeError | Some s \<Rightarrow> io_return (S s))"

definition fmt_plain :: "string option \<Rightarrow> field" where
  "fmt_plain v = (case v of None \<Rightarrow> PyNone | Some s \<Rightarrow> S s)"

text \<open>\<open>str.startswith\<close>.\<close>

definition startswith :: "string \<Rightarrow> string \<Rightarrow> bool" where
  "startswith s p = (take (length p) s = p)"

text \<open>True division: ZeroDivisionError on a zero divisor.\<close>

definition py_div :: "real \<Rightarrow> real \<Rightarrow> exn + real" where
  "py_div a b = (if b = 0 then Inl ZeroDivisionError else Inr (a / b))"

text \<open>\<open>sum(...)\<close> adds from the left, starting at 0.\<close>

definition py_sum :: "real list \<Rightarrow> real" where
  "py_sum xs = foldl (+) 0 xs"

text \<open>
  A file is its size in bytes and what ElementTree makes of its text. A file system maps
  a path to the file there, if any.
\<close>

datatype content = Malformed | Document element

type_synonym filesystem = "string \<Rightarrow> (nat \<times> content) option"

definition exists :: "filesystem \<Rightarrow> string \<Rightarrow> bool" where
  "exists fs p = (fs p \<noteq> None)"

definition getsize :: "filesystem \<Rightarrow> string \<Rightarrow> nat io" where
  "getsize fs p = (case fs p of None \<Rightarrow> io_raise OSError | Some (n, _) \<Rightarrow> io_return n)"

definition ET_parse :: "filesystem \<Rightarrow> string \<Rightarrow> element io" where
  "ET_parse fs p =
     (case fs p of
        None \<Rightarrow> io_raise OSError
      | Some (_, Malformed) \<Rightarrow> io_raise ParseError
      | Some (_, Document troot) \<Rightarrow> io_return troot)"

section \<open>network\_analyzer.py\<close>

record conn =
  edge :: "string option"
  from_node :: string
  to_node :: string
  declared :: real
  calculated :: real

type_synonym nodes = "(string option \<times> (real \<times> real)) list"

text \<open>
  The \<open>nodes\<close> dictionary keeps insertion order; storing under a key that is already
  there replaces the value in place. A junction without an id is stored under \<open>None\<close>.
\<close>

definition add_junction :: "(string \<Rightarrow> real option) \<Rightarrow> element \<Rightarrow> nodes \<Rightarrow> nodes io" where
  "add_junction pf junction nodes =
     (let node_id = get_attr junction ''id'' in
      io_bind (py_float_default pf (get_attr junction ''x'') 0) (\<lambda>x.
      io_bind (py_float_default pf (get_attr junction ''y'') 0) (\<lambda>y.
      io_return (AList.update node_id (x, y) nodes))))"

definition extract_nodes :: "(string \<Rightarrow> real option) \<Rightarrow> element \<Rightarrow> nodes io" where
  "extract_nodes pf troot = io_fold (add_junction pf) (findall troot ''junction'') []"

definition print_node :: "string option \<times> real \<times> real \<Rightarrow> unit io" where
  "print_node n = (case n of (node_id, x, y) \<Rightarrow>
     io_print ''  {node_id}: ({x:.2f}, {y:.2f})'' [fmt_plain node_id, F x, F y])"

definition declared_length_of :: "(string \<Rightarrow> real option) \<Rightarrow> element \<Rightarrow> real io" where
  "declared_length_of pf e =
     (case find_child e ''lane'' of
        None \<Rightarrow> io_return 0
      | Some lane \<Rightarrow> py_float_default pf (get_attr lane ''length'') 0)"

definition nodes_lookup :: "nodes \<Rightarrow> string \<Rightarrow> (real \<times> real) io" where
  "nodes_lookup nodes k =
     (case map_of nodes (Some k) of None \<Rightarrow> io_raise KeyError | Some c \<Rightarrow> io_return c)"

definition node_in :: "string \<Rightarrow> nodes \<Rightarrow> bool" where
  "node_in k nodes = (map_of nodes (Some k) \<noteq> None)"

text \<open>\<open>edge_id and edge_id.startswith(':')\<close>: \<open>None\<close> and the empty string are false.\<close>

definition is_internal :: "string option \<Rightarrow> bool" where
  "is_internal edge_id =
     (case edge_id of None \<Rightarrow> False | Some s \<Rightarrow> s \<noteq> [] \<and> startswith s '':'')"

text \<open>
  One pass of the loop over the edges; \<open>connections\<close> is the list built so far. The
  row is appended before it is printed, and printing an edge without an id raises.
\<close>

definition edge_step ::
  "(string \<Rightarrow> real option) \<Rightarrow> nodes \<Rightarrow> element \<Rightarrow> conn list \<Rightarrow> conn list io" where
  "edge_step pf nodes e connections =
     (let edge_id = get_attr e ''id'';
          from_n = get_attr e ''from'';
          to_n = get_attr e ''to''
      in if is_internal edge_id then io_return connections
         else
           (case (from_n, to_n) of
              (Some from_s, Some to_s) \<Rightarrow>
                if from_s \<noteq> [] \<and> to_s \<noteq> [] \<and> node_in from_s nodes \<and> node_in to_s nodes
                then
                  io_bind (declared_length_of pf e) (\<lambda>declared_length.
                  io_bind (nodes_lookup nodes from_s) (\<lambda>(x1, y1).
                  io_bind (nodes_lookup nodes to_s) (\<lambda>(x2, y2).
                  let calculated_length = sqrt ((x2 - x1)\<^sup>2 + (y2 - y1)\<^sup>2);
                      connections' = connections @
                        [\<lparr>edge = edge_id, from_node = from_s, to_node = to_s,
                          declared = declared_length, calculated = calculated_length\<rparr>]
                  in
                  io_bind (fmt_width edge_id) (\<lambda>edge_f.
                  io_then
                    (io_print ''{edge_id:<8} {from:<6} {to:<6} {declared:<12.1f} {calculated:<12.1f}''
                       [edge_f, S from_s, S to_s, F declared_length, F calculated_length])
                    (io_return connections')))))
                else io_return connections
            | _ \<Rightarrow> io_return connections))"

definition extract_edges ::
  "(string \<Rightarrow> real option) \<Rightarrow> nodes \<Rightarrow> element list \<Rightarrow> conn list io" where
  "extract_edges pf nodes edges = io_fold (edge_step pf nodes) edges []"

definition main_route :: "string list" where
  "main_route = [''E0'', ''E1'', ''E2'', ''E3'']"

definition alt_route :: "string list" where
  "alt_route = [''E4'', ''E11'', ''E10'', ''E1'', ''E2'', ''E3'']"

definition in_route :: "string option \<Rightarrow> string list \<Rightarrow> bool" where
  "in_route e route = (case e of None \<Rightarrow> False | Some s \<Rightarrow> s \<in> set route)"

definition print_discrepancy :: "conn \<Rightarrow> unit io" where
  "print_discrepancy c =
     (let diff = \<bar>declared c - calculated c\<bar>
      in if diff > 10 then io_print ''{edge}: {diff:.1f}m difference'' [fmt_plain (edge c), F diff]
         else io_return ())"

definition summary :: "conn list \<Rightarrow> unit io" where
  "summary connections =
     io_then (hrule CHR ''='' 80)
    (io_then (io_print ''DISTANCE VERIFICATION SUMMARY'' [])
    (io_then (hrule CHR ''='' 80)
    (let total_declared = py_sum (map declared connections);
         total_calculated = py_sum (map calculated connections)
     in
     io_then (io_print ''Total network length (declared): {:.1f}m'' [F total_declared])
    (io_then (io_print ''Total network length (calculated): {:.1f}m'' [F total_calculated])
    (io_then (io_print ''Difference: {:.1f}m'' [F \<bar>total_declared - total_calculated\<bar>])
    (io_then (io_print ''DISCREPANCY ANALYSIS:'' [])
    (io_then (hrule CHR ''-'' 40)
    (io_then (io_foreach print_discrepancy connections)
    (io_then (io_print ''ROUTE DISTANCE ANALYSIS:'' [])
    (io_then (hrule CHR ''-'' 40)
    (let main_distance =
           py_sum (map declared (filter (\<lambda>c. in_route (edge c) main_route) connections))
     in
     io_then (io_print ''Main route (E0-E1-E2-E3): {:.1f}m'' [F main_distance])
    (let alt_distance =
           py_sum (map declared (filter (\<lambda>c. in_route (edge c) alt_route) connections))
     in
     io_print ''Alternative route (E4-E11-E10-E1-E2-E3): {:.1f}m'' [F alt_distance]))))))))))))"

text \<open>The body of the \<open>try\<close> block of \<open>analyze_network\<close>, after the file is parsed.\<close>

definition analysis :: "(string \<Rightarrow> real option) \<Rightarrow> element \<Rightarrow> conn list io" where
  "analysis pf troot =
     io_then (hrule CHR ''='' 80)
    (io_then (io_print ''SUMO NETWORK ANALYSIS'' [])
    (io_then (hrule CHR ''='' 80)
    (io_bind (extract_nodes pf troot) (\<lambda>nodes.
     io_then (io_print ''Found {len(nodes)} nodes:'' [I (int (length nodes))])
    (io_then (io_foreach print_node nodes)
    (io_then (io_print ''EDGE CONNECTIONS AND DISTANCES:'' [])
    (io_then (hrule CHR ''-'' 60)
    (io_then (io_print ''Edge ID  From   To     Length (m)   Calculated'' [])
    (io_then (hrule CHR ''-'' 60)
    (io_bind (extract_edges pf nodes (findall troot ''edge'')) (\<lambda>connections.
     io_then (summary connections)
    (io_return connections))))))))))))"

definition analyze_body :: "(string \<Rightarrow> real option) \<Rightarrow> filesystem \<Rightarrow> string \<Rightarrow> conn list io" where
  "analyze_body pf fs net_file = io_bind (ET_parse fs net_file) (analysis pf)"

definition analyze_network ::
  "(string \<Rightarrow> real option) \<Rightarrow> filesystem \<Rightarrow> string \<Rightarrow> conn list option io" where
  "analyze_network pf fs net_file =
     io_try
       (io_bind (analyze_body pf fs net_file) (\<lambda>connections. io_return (Some connections)))
       (\<lambda>e. if e = ParseError
            then io_then (io_print ''Error parsing network file: {e}'' [E e]) (io_return None)
            else io_then (io_print ''Error analyzing network: {e}'' [E e]) (io_return None))"

text \<open>\<open>compare_with_diagram\<close>: the expected lengths are whole numbers.\<close>

definition expected :: "(string \<times> real) list" where
  "expected = [(''E0'', 860), (''E1'', 900), (''E2'', 940), (''E3'', 1300), (''E4'', 410),
     (''E11'', 260), (''E10'', 120), (''E17'', 260), (''E18'', 700), (''E14'', 900),
     (''E15'', 750), (''E12'', 650), (''E16'', 750), (''E7'', 130), (''E8'', 480)]"

definition compare_row :: "conn \<Rightarrow> unit io" where
  "compare_row c =
     (let edge_id = edge c; actual = declared c
      in case edge_id of
           None \<Rightarrow> io_return ()
         | Some s \<Rightarrow>
             (case map_of expected s of
                None \<Rightarrow> io_return ()
              | Some exp_len \<Rightarrow>
                  (let diff = actual - exp_len;
                       status = (if \<bar>diff\<bar> < 10 then ''Match'' else ''Mismatch'')
                   in io_print ''{edge_id:<6} {exp:<10.0f} {actual:<10.1f} {diff:+12.1f} {status}''
                        [S s, F exp_len, F actual, F diff, S status])))"

definition compare_with_diagram :: "conn list \<Rightarrow> unit io" where
  "compare_with_diagram connections =
     io_then (hrule CHR ''='' 80)
    (io_then (io_print ''COMPARISON WITH YOUR DIAGRAM'' [])
    (io_then (hrule CHR ''='' 80)
    (io_then (io_print ''Edge   Expected   Actual     Difference   Status'' [])
    (io_then (hrule CHR ''-'' 60)
    (io_foreach compare_row connections)))))"

definition create_distance_update_guide :: "conn list \<Rightarrow> unit io" where
  "create_distance_update_guide connections =
     io_then (hrule CHR ''='' 80)
    (io_then (io_print ''DISTANCE UPDATE GUIDE'' [])
    (io_then (hrule CHR ''='' 80)
    (io_then (io_print ''To update your network to match the exact distances:'' [])
    (io_then (io_print ''1. Use SUMO netedit to modify edge lengths'' [])
    (io_then (io_print ''2. Or manually edit the XML (not recommended)'' [])
    (io_then (io_print ''3. Or use netconvert with custom edge lengths'' [])
    (io_then (io_print ''NETEDIT Steps:'' [])
    (io_then (io_print ''1. Open: netedit Test1.net.xml'' [])
    (io_then (io_print ''2. Select edge inspection mode'' [])
    (io_then (io_print ''3. Click on each edge and modify 'length' parameter'' [])
    (io_print ''4. Save the network'' [])))))))))))"

text \<open>
  The script's entry point; \<open>argv\<close> is \<open>sys.argv\<close>, the script's own name first.
  \<open>if connections:\<close> is false for \<open>None\<close> and for an empty list.
\<close>

definition network_analyzer_file :: "string list \<Rightarrow> string" where
  "network_analyzer_file argv = (if length argv > 1 then argv ! 1 else ''Test1.net.xml'')"

definition network_analyzer_main ::
  "(string \<Rightarrow> real option) \<Rightarrow> filesystem \<Rightarrow> string list \<Rightarrow> unit io" where
  "network_analyzer_main pf fs argv =
     (let net_file = network_analyzer_file argv
      in io_then (io_print ''Analyzing network file: {net_file}'' [S net_file])
        (io_bind (analyze_network pf fs net_file) (\<lambda>connections.
           case connections of
             Some (c # cs) \<Rightarrow>
               io_then (compare_with_diagram (c # cs)) (create_distance_update_guide (c # cs))
           | _ \<Rightarrow> io_print ''Failed to analyze network file.'' [])))"

section \<open>vehicle\_monitor.py\<close>

subsection \<open>The four readers\<close>

definition fcd_vehicle :: "(string \<Rightarrow> real option) \<Rightarrow> element \<Rightarrow> unit io" where
  "fcd_vehicle pf vehicle =
     (let veh_id = get_attr vehicle ''id'';
          veh_type = (case get_attr vehicle ''type'' of None \<Rightarrow> ''unknown'' | Some s \<Rightarrow> s)
      in
      io_bind (py_float pf (get_attr vehicle ''x'')) (\<lambda>x.
      io_bind (py_float pf (get_attr vehicle ''y'')) (\<lambda>y.
      io_bind (py_float pf (get_attr vehicle ''speed'')) (\<lambda>speed.
      io_bind (py_float pf (get_attr vehicle ''angle'')) (\<lambda>angle.
      io_bind (fmt_width veh_id) (\<lambda>id_f.
      io_print ''{veh_id:8} [{veh_type:8}] Speed: {speed:5.1f}m/s  Pos: ({x:6.1f}, {y:6.1f})  Angle: {angle:6.1f}''
        [id_f, S veh_type, F speed, F x, F y, F angle]))))))"

text \<open>One timestep of the FCD file; \<open>current_time\<close> is carried from one to the next.\<close>

definition fcd_timestep ::
  "(string \<Rightarrow> real option) \<Rightarrow> element \<Rightarrow> real option \<Rightarrow> real option io" where
  "fcd_timestep pf timestep current_time =
     io_bind (py_float pf (get_attr timestep ''time'')) (\<lambda>step_time.
     io_bind
       (if current_time \<noteq> Some step_time
        then io_then (io_print ''Time: {step_time:.1f}s'' [F step_time])
            (io_then (hrule CHR ''-'' 60) (io_return (Some step_time)))
        else io_return current_time) (\<lambda>current_time'.
     io_then (io_foreach (fcd_vehicle pf) (findall timestep ''vehicle''))
    (io_return current_time')))"

definition read_fcd_body :: "(string \<Rightarrow> real option) \<Rightarrow> filesystem \<Rightarrow> string \<Rightarrow> unit io" where
  "read_fcd_body pf fs file_path =
     io_bind (ET_parse fs file_path) (\<lambda>troot.
     io_then (hrule CHR ''='' 80)
    (io_then (io_print ''VEHICLE REAL-TIME DATA (Speed, Position, Angle)'' [])
    (io_then (hrule CHR ''='' 80)
    (io_then (io_fold (fcd_timestep pf) (findall troot ''timestep'') None)
    (io_return ())))))"

definition read_fcd_data :: "(string \<Rightarrow> real option) \<Rightarrow> filesystem \<Rightarrow> string \<Rightarrow> unit io" where
  "read_fcd_data pf fs file_path =
     (if \<not> exists fs file_path then io_print ''FCD file not found: {file_path}'' [S file_path]
      else io_try (read_fcd_body pf fs file_path)
             (\<lambda>e. io_print ''Error reading FCD data: {e}'' [E e]))"

text \<open>\<open>route_length / duration if duration > 0 else 0\<close>\<close>

definition avg_speed_of :: "real \<Rightarrow> real \<Rightarrow> exn + real" where
  "avg_speed_of route_length duration =
     (if duration > 0 then py_div route_length duration else Inr 0)"

definition tripinfo_entry :: "(string \<Rightarrow> real option) \<Rightarrow> element \<Rightarrow> unit io" where
  "tripinfo_entry pf tripinfo =
     (let veh_id = get_attr tripinfo ''id'';
          veh_type = get_attr tripinfo ''vType''
      in
      io_bind (py_float pf (get_attr tripinfo ''depart'')) (\<lambda>depart.
      io_bind (py_float pf (get_attr tripinfo ''arrival'')) (\<lambda>arrival.
      io_bind (py_float pf (get_attr tripinfo ''duration'')) (\<lambda>duration.
      io_bind (py_float pf (get_attr tripinfo ''routeLength'')) (\<lambda>route_length.
      io_bind (py_float pf (get_attr tripinfo ''maxSpeed'')) (\<lambda>max_speed.
      io_bind (io_lift (avg_speed_of route_length duration)) (\<lambda>avg_speed.
      io_bind (fmt_width veh_id) (\<lambda>id_f.
      io_bind (fmt_width veh_type) (\<lambda>type_f.
      io_then (io_print ''{veh_id:8} [{veh_type:8}]'' [id_f, type_f])
     (io_then (io_print ''   Distance: {route_length:8.1f}m'' [F route_length])
     (io_then (io_print ''   Duration: {duration:8.1f}s'' [F duration])
     (io_then (io_print ''   Avg Speed: {avg_speed:6.1f}m/s'' [F avg_speed])
     (io_then (io_print ''   Max Speed: {max_speed:6.1f}m/s'' [F max_speed])
     (io_then (io_print ''   Depart: {depart:6.1f}s - Arrive: {arrival:6.1f}s'' [F depart, F arrival])
     (hrule CHR ''-'' 50)))))))))))))))"

definition read_tripinfo_body ::
  "(string \<Rightarrow> real option) \<Rightarrow> filesystem \<Rightarrow> string \<Rightarrow> unit io" where
  "read_tripinfo_body pf fs file_path =
     io_bind (ET_parse fs file_path) (\<lambda>troot.
     io_then (hrule CHR ''='' 80)
    (io_then (io_print ''TRIP SUMMARY DATA (Distance, Duration, Speed)'' [])
    (io_then (hrule CHR ''='' 80)
    (io_foreach (tripinfo_entry pf) (findall troot ''tripinfo'')))))"

definition read_tripinfo_data ::
  "(string \<Rightarrow> real option) \<Rightarrow> filesystem \<Rightarrow> string \<Rightarrow> unit io" where
  "read_tripinfo_data pf fs file_path =
     (if \<not> exists fs file_path
      then io_print ''Trip info file not found: {file_path}'' [S file_path]
      else io_try (read_tripinfo_body pf fs file_path)
             (\<lambda>e. io_print ''Error reading trip info: {e}'' [E e]))"

text \<open>\<open>(battery_capacity / max_capacity) * 100 if max_capacity > 0 else 0\<close>\<close>

definition battery_percent_of :: "real \<Rightarrow> real \<Rightarrow> exn + real" where
  "battery_percent_of battery_capacity max_capacity =
     (if max_capacity > 0
      then (case py_div battery_capacity max_capacity of
              Inl e \<Rightarrow> Inl e
            | Inr q \<Rightarrow> Inr (q * 100))
      else Inr 0)"

definition battery_vehicle :: "(string \<Rightarrow> real option) \<Rightarrow> element \<Rightarrow> unit io" where
  "battery_vehicle pf vehicle =
     (let veh_id = get_attr vehicle ''id''
      in
      io_bind (py_float_default pf (get_attr vehicle ''energyConsumed'') 0) (\<lambda>energy_consumed.
      io_bind (py_float_default pf (get_attr vehicle ''actualBatteryCapacity'') 0) (\<lambda>battery_capacity.
      io_bind (py_float_default pf (get_attr vehicle ''maximumBatteryCapacity'') 100000) (\<lambda>max_capacity.
      io_bind (io_lift (battery_percent_of battery_capacity max_capacity)) (\<lambda>battery_percent.
      io_bind (fmt_width veh_id) (\<lambda>id_f.
      io_print ''{veh_id:8} Battery: {battery_percent:5.1f}% ({battery_capacity:8.0f}Wh) Energy Used: {energy_consumed:8.1f}Wh''
        [id_f, F battery_percent, F battery_capacity, F energy_consumed]))))))"

definition battery_timestep :: "(string \<Rightarrow> real option) \<Rightarrow> element \<Rightarrow> unit io" where
  "battery_timestep pf timestep =
     io_bind (py_float pf (get_attr timestep ''time'')) (\<lambda>step_time.
     let vehicles_with_battery = findall timestep ''vehicle''
     in if vehicles_with_battery \<noteq> []
        then io_then (io_print ''Time: {step_time:.1f}s'' [F step_time])
            (io_then (hrule CHR ''-'' 60)
            (io_foreach (battery_vehicle pf) vehicles_with_battery))
        else io_return ())"

definition read_battery_body ::
  "(string \<Rightarrow> real option) \<Rightarrow> filesystem \<Rightarrow> string \<Rightarrow> unit io" where
  "read_battery_body pf fs file_path =
     io_bind (ET_parse fs file_path) (\<lambda>troot.
     io_then (hrule CHR ''='' 80)
    (io_then (io_print ''BATTERY DATA (Charge Levels, Energy Consumption)'' [])
    (io_then (hrule CHR ''='' 80)
    (io_foreach (battery_timestep pf) (findall troot ''timestep'')))))"

definition read_battery_data ::
  "(string \<Rightarrow> real option) \<Rightarrow> filesystem \<Rightarrow> string \<Rightarrow> unit io" where
  "read_battery_data pf fs file_path =
     (if \<not> exists fs file_path
      then io_print ''Battery file not found: {file_path}'' [S file_path]
      else io_try (read_battery_body pf fs file_path)
             (\<lambda>e. if e = ParseError
                  then io_print ''Skipping {file_path} (incomplete XML): {e}'' [S file_path, E e]
                  else io_print ''Error reading battery data: {e}'' [E e]))"

definition station_entry ::
  "(string \<Rightarrow> real option) \<Rightarrow> (string \<Rightarrow> int option) \<Rightarrow> element \<Rightarrow> unit io" where
  "station_entry pf pint station =
     (let station_id = get_attr station ''id''
      in
      io_bind (py_float_default pf (get_attr station ''totalEnergyCharged'') 0) (\<lambda>power_output.
      io_bind (py_int_default pint (get_attr station ''chargingVehicles'') 0) (\<lambda>occupancy.
      io_bind (fmt_width station_id) (\<lambda>id_f.
      io_print ''{station_id:12} Power: {power_output:8.1f}W  Vehicles: {occupancy}''
        [id_f, F power_output, I occupancy]))))"

definition charging_timestep ::
  "(string \<Rightarrow> real option) \<Rightarrow> (string \<Rightarrow> int option) \<Rightarrow> element \<Rightarrow> unit io" where
  "charging_timestep pf pint timestep =
     io_bind (py_float pf (get_attr timestep ''time'')) (\<lambda>step_time.
     let stations_active = findall timestep ''chargingStation''
     in if stations_active \<noteq> []
        then io_then (io_print ''Time: {step_time:.1f}s'' [F step_time])
            (io_then (hrule CHR ''-'' 60)
            (io_foreach (station_entry pf pint) stations_active))
        else io_return ())"

definition read_charging_stations_body ::
  "(string \<Rightarrow> real option) \<Rightarrow> (string \<Rightarrow> int option) \<Rightarrow> filesystem \<Rightarrow> string \<Rightarrow> unit io" where
  "read_charging_stations_body pf pint fs file_path =
     io_bind (ET_parse fs file_path) (\<lambda>troot.
     io_then (hrule CHR ''='' 80)
    (io_then (io_print ''CHARGING STATION DATA (Usage, Power Output)'' [])
    (io_then (hrule CHR ''='' 80)
    (io_foreach (charging_timestep pf pint) (findall troot ''timestep'')))))"

definition read_charging_stations_data ::
  "(string \<Rightarrow> real option) \<Rightarrow> (string \<Rightarrow> int option) \<Rightarrow> filesystem \<Rightarrow> string \<Rightarrow> unit io" where
  "read_charging_stations_data pf pint fs file_path =
     (if \<not> exists fs file_path
      then io_print ''Charging stations file not found: {file_path}'' [S file_path]
      else io_try (read_charging_stations_body pf pint fs file_path)
             (\<lambda>e. io_print ''Error reading charging station data: {e}'' [E e]))"

subsection \<open>Live monitoring\<close>

text \<open>
  \<open>files_to_monitor\<close> in the order the dictionary is written and iterated.
  \<open>file_sizes\<close> maps each size key to the last recorded size; reading a key that is
  not there raises KeyError.
\<close>

definition files_to_monitor :: "(string \<times> string) list" where
  "files_to_monitor =
     [(''fcd.xml'', ''last_fcd_size''),
      (''tripinfo.xml'', ''last_trip_size''),
      (''chargingstations.xml'', ''last_charging_size'')]"

definition initial_file_sizes :: "string \<rightharpoonup> nat" where
  "initial_file_sizes = fold (\<lambda>(filename, size_key) m. m(size_key \<mapsto> 0)) files_to_monitor Map.empty"

definition dict_get :: "(string \<rightharpoonup> nat) \<Rightarrow> string \<Rightarrow> nat io" where
  "dict_get d k = (case d k of None \<Rightarrow> io_raise KeyError | Some v \<Rightarrow> io_return v)"

text \<open>The \<open>if\<close>/\<open>elif\<close> chain that picks the reader of an updated file.\<close>

definition reread ::
  "(string \<Rightarrow> real option) \<Rightarrow> (string \<Rightarrow> int option) \<Rightarrow> filesystem \<Rightarrow> string \<Rightarrow> unit io" where
  "reread pf pint fs filename =
     (if filename = ''fcd.xml'' then read_fcd_data pf fs filename
      else if filename = ''tripinfo.xml'' then read_tripinfo_data pf fs filename
      else if filename = ''chargingstations.xml''
      then read_charging_stations_data pf pint fs filename
      else io_return ())"

text \<open>
  The body of the inner \<open>for\<close> loop, for one monitored file. \<open>fs\<close> is the file system
  as the iteration finds it: \<open>os.path.exists\<close>, \<open>os.path.getsize\<close> and the reader see
  the same files.
\<close>

definition check_file ::
  "(string \<Rightarrow> real option) \<Rightarrow> (string \<Rightarrow> int option) \<Rightarrow> filesystem \<Rightarrow>
   string \<times> string \<Rightarrow> (string \<rightharpoonup> nat) \<Rightarrow> (string \<rightharpoonup> nat) io" where
  "check_file pf pint fs entry file_sizes =
     (case entry of (filename, size_key) \<Rightarrow>
        if exists fs filename
        then
          io_bind (getsize fs filename) (\<lambda>current_size.
          io_bind (dict_get file_sizes size_key) (\<lambda>last_size.
          if current_size > last_size
          then
            (let file_sizes' = file_sizes(size_key \<mapsto> current_size)
             in io_then (io_print ''Updated: {filename}'' [S filename])
               (io_then (reread pf pint fs filename)
               (io_return file_sizes')))
          else io_return file_sizes))
        else io_return file_sizes)"

text \<open>One pass of \<open>while True\<close>: every monitored file, then \<open>time.sleep(1)\<close>.\<close>

definition monitor_iteration ::
  "(string \<Rightarrow> real option) \<Rightarrow> (string \<Rightarrow> int option) \<Rightarrow> filesystem \<Rightarrow>
   (string \<rightharpoonup> nat) \<Rightarrow> (string \<rightharpoonup> nat) io" where
  "monitor_iteration pf pint fs file_sizes =
     io_bind (io_fold (check_file pf pint fs) files_to_monitor file_sizes) (\<lambda>file_sizes'.
     io_then (io_sleep 1)
    (io_return file_sizes'))"

text \<open>
  The loop never ends by itself; it runs until the user interrupts it. The list holds
  the file system as each pass finds it, up to the interrupt. The result is the
  dictionary of recorded sizes at that moment, which the source then drops.
\<close>

fun monitor_loop ::
  "(string \<Rightarrow> real option) \<Rightarrow> (string \<Rightarrow> int option) \<Rightarrow> filesystem list \<Rightarrow>
   (string \<rightharpoonup> nat) \<Rightarrow> (string \<rightharpoonup> nat) io" where
  "monitor_loop pf pint [] file_sizes = io_return file_sizes"
| "monitor_loop pf pint (fs # later) file_sizes =
     io_bind (monitor_iteration pf pint fs file_sizes) (monitor_loop pf pint later)"

definition monitor_simulation_live ::
  "(string \<Rightarrow> real option) \<Rightarrow> (string \<Rightarrow> int option) \<Rightarrow> filesystem list \<Rightarrow>
   (string \<rightharpoonup> nat) io" where
  "monitor_simulation_live pf pint passes =
     io_then (io_print ''SUMO Vehicle Data Monitor Started'' [])
    (io_then (io_print ''Monitoring files in current directory...'' [])
    (io_then (io_print ''Press Ctrl+C to stop monitoring'' [])
    (io_bind (monitor_loop pf pint passes initial_file_sizes) (\<lambda>file_sizes.
     io_then (io_print ''Monitoring stopped by user'' [])
    (io_return file_sizes)))))"

subsection \<open>Reading once, and the entry point\<close>

definition read_all_files ::
  "(string \<Rightarrow> real option) \<Rightarrow> (string \<Rightarrow> int option) \<Rightarrow> filesystem \<Rightarrow> unit io" where
  "read_all_files pf pint fs =
     io_then (io_print ''SUMO SIMULATION DATA ANALYSIS'' [])
    (io_then (hrule CHR ''='' 80)
    (io_then (read_fcd_data pf fs ''fcd.xml'')
    (io_then (read_tripinfo_data pf fs ''tripinfo.xml'')
    (io_then (read_charging_stations_data pf pint fs ''chargingstations.xml'')
    (io_then (hrule CHR ''='' 80)
    (io_then (io_print ''DATA ANALYSIS COMPLETE'' [])
    (hrule CHR ''='' 80)))))))"

definition print_usage :: "unit io" where
  "print_usage =
     io_then (io_print ''SUMO Vehicle Data Reader'' [])
    (io_then (io_print ''Usage:'' [])
    (io_then (io_print ''  python vehicle_monitor.py          # Read all files once'' [])
    (io_then (io_print ''  python vehicle_monitor.py --live   # Monitor files in real-time'' [])
    (io_print ''  python vehicle_monitor.py --help   # Show this help'' []))))"

text \<open>
  \<open>argv\<close> is \<open>sys.argv\<close>; \<open>passes\<close> is what the live monitor will find, \<open>fs\<close> the
  file system now.
\<close>

definition vehicle_monitor_main ::
  "(string \<Rightarrow> real option) \<Rightarrow> (string \<Rightarrow> int option) \<Rightarrow> filesystem \<Rightarrow> filesystem list \<Rightarrow>
   string list \<Rightarrow> unit io" where
  "vehicle_monitor_main pf pint fs passes argv =
     (if length argv > 1
      then
        if argv ! 1 = ''--live''
        then io_then (monitor_simulation_live pf pint passes) (io_return ())
        else if argv ! 1 = ''--help'' then print_usage
        else io_print ''Unknown option. Use --help for usage information.'' []
      else read_all_files pf pint fs)"

section \<open>run\_simulation.py\<close>

text \<open>
  The TraCI session as the script sees it at one moment of the simulation: every query
  either answers or raises. \<open>TraCIException\<close> is the class the script handles on its
  own; every other failure of the client library is some other \<open>exn\<close>.
\<close>

record traci =
  getMinExpectedNumber :: "exn + int"
  getTime :: "exn + real"
  getIDList :: "exn + string list"
  getSpeed :: "string \<Rightarrow> exn + real"
  getPosition :: "string \<Rightarrow> exn + real \<times> real"
  getLaneID :: "string \<Rightarrow> exn + string"
  getDistance :: "string \<Rightarrow> exn + real"
  getWaitingTime :: "string \<Rightarrow> exn + real"
  getTypeID :: "string \<Rightarrow> exn + string"
  getParameter :: "string \<Rightarrow> string \<Rightarrow> exn + string"

text \<open>
  The rows of the four data containers. A battery row has the ten columns of a
  real-time row and seven more.
\<close>

record realtime_record =
  timestep_sec :: real
  vehicle_id :: string
  vehicle_type :: string
  speed_ms :: real
  speed_kmh :: real
  x_position_m :: real
  y_position_m :: real
  lane :: string
  distance_traveled_m :: real
  waiting_time_sec :: real

record battery_record = realtime_record +
  actualBatteryCapacity_Wh :: real
  maximumBatteryCapacity_Wh :: real
  battery_soc_percent :: real
  totalEnergyConsumed_Wh :: real
  totalEnergyRegenerated_Wh :: real
  netEnergyUsed_Wh :: real
  chargingStationId :: string

record charging_event =
  ce_timestep :: real
  ce_vehicle_id :: string
  ce_vehicle_type :: string
  ce_charging_station :: string
  ce_battery_soc_percent :: real

record trip =
  trip_vehicle_id :: string
  trip_vehicle_type :: string
  depart_time :: real
  max_speed_kmh :: real
  total_waiting_time :: real
  final_distance :: real

record exporter =
  sumocfg :: string
  output_folder :: string
  battery_data :: "battery_record list"
  realtime_data :: "realtime_record list"
  trip_data :: "(string \<times> trip) list"
  charging_events :: "charging_event list"

text \<open>The containers as the constructor leaves them.\<close>

definition new_exporter :: "string \<Rightarrow> string \<Rightarrow> exporter" where
  "new_exporter cfg folder =
     \<lparr>sumocfg = cfg, output_folder = folder, battery_data = [], realtime_data = [],
      trip_data = [], charging_events = []\<rparr>"

text \<open>The six basic queries of one vehicle, in the order the script makes them.\<close>

record basic =
  speed :: real
  position :: "real \<times> real"
  lane_id :: string
  distance :: real
  waiting_time :: real
  vtype :: string

definition basic_queries :: "traci \<Rightarrow> string \<Rightarrow> exn + basic" where
  "basic_queries tr veh_id =
     (case getSpeed tr veh_id of Inl e \<Rightarrow> Inl e | Inr sp \<Rightarrow>
     (case getPosition tr veh_id of Inl e \<Rightarrow> Inl e | Inr pos \<Rightarrow>
     (case getLaneID tr veh_id of Inl e \<Rightarrow> Inl e | Inr lid \<Rightarrow>
     (case getDistance tr veh_id of Inl e \<Rightarrow> Inl e | Inr dist_m \<Rightarrow>
     (case getWaitingTime tr veh_id of Inl e \<Rightarrow> Inl e | Inr wt \<Rightarrow>
     (case getTypeID tr veh_id of Inl e \<Rightarrow> Inl e | Inr ty \<Rightarrow>
      Inr \<lparr>speed = sp, position = pos, lane_id = lid, distance = dist_m,
           waiting_time = wt, vtype = ty\<rparr>))))))"

text \<open>\<open>float(traci.vehicle.getParameter(veh_id, key))\<close>\<close>

definition float_parameter ::
  "traci \<Rightarrow> (string \<Rightarrow> real option) \<Rightarrow> string \<Rightarrow> string \<Rightarrow> exn + real" where
  "float_parameter tr pf veh_id key =
     (case getParameter tr veh_id key of
        Inl e \<Rightarrow> Inl e
      | Inr s \<Rightarrow> (case pf s of None \<Rightarrow> Inl ValueError | Some r \<Rightarrow> Inr r))"

text \<open>\<open>(battery_capacity / max_battery * 100) if max_battery > 0 else 0\<close>\<close>

definition soc_percent_of :: "real \<Rightarrow> real \<Rightarrow> exn + real" where
  "soc_percent_of bc mb =
     (if mb > 0
      then (case py_div bc mb of Inl e \<Rightarrow> Inl e | Inr q \<Rightarrow> Inr (q * 100))
      else Inr 0)"

text \<open>
  The inner \<open>try\<close> block with its bare \<open>except: pass\<close>: the local variables keep
  whatever was assigned before a failure. It returns them with the state, in which a
  charging event may have been appended.
\<close>

record battery_vars =
  battery_capacity :: real
  max_battery :: real
  energy_consumed :: real
  energy_regen :: real
  charging_station :: string

definition battery_block ::
  "traci \<Rightarrow> (string \<Rightarrow> real option) \<Rightarrow> real \<Rightarrow> string \<Rightarrow> string \<Rightarrow> exporter \<Rightarrow>
   battery_vars \<times> exporter" where
  "battery_block tr pf simulation_time veh_id ty st =
     (let b0 = \<lparr>battery_capacity = 0, max_battery = 0, energy_consumed = 0,
                energy_regen = 0, charging_station = ''NULL''\<rparr>
      in
      (case float_parameter tr pf veh_id ''device.battery.actualBatteryCapacity'' of
         Inl _ \<Rightarrow> (b0, st)
       | Inr bc \<Rightarrow>
      (let b1 = b0\<lparr>battery_capacity := bc\<rparr> in
      (case float_parameter tr pf veh_id ''device.battery.maximumBatteryCapacity'' of
         Inl _ \<Rightarrow> (b1, st)
       | Inr mb \<Rightarrow>
      (let b2 = b1\<lparr>max_battery := mb\<rparr> in
      (case float_parameter tr pf veh_id ''device.battery.totalEnergyConsumed'' of
         Inl _ \<Rightarrow> (b2, st)
       | Inr ec \<Rightarrow>
      (let b3 = b2\<lparr>energy_consumed := ec\<rparr> in
      (case float_parameter tr pf veh_id ''device.battery.totalEnergyRegenerated'' of
         Inl _ \<Rightarrow> (b3, st)
       | Inr er \<Rightarrow>
      (let b4 = b3\<lparr>energy_regen := er\<rparr> in
      (case getParameter tr veh_id ''device.battery.chargingStationId'' of
         Inl _ \<Rightarrow> (b4, st)
       | Inr charging_station_id \<Rightarrow>
           if charging_station_id \<noteq> [] \<and> charging_station_id \<noteq> ''NULL''
           then
             (let b5 = b4\<lparr>charging_station := charging_station_id\<rparr>
              in case soc_percent_of bc mb of
                   Inl _ \<Rightarrow> (b5, st)
                 | Inr soc \<Rightarrow>
                     (b5, st\<lparr>charging_events := charging_events st @
                        [\<lparr>ce_timestep = simulation_time, ce_vehicle_id = veh_id,
                          ce_vehicle_type = ty, ce_charging_station = charging_station_id,
                          ce_battery_soc_percent = soc\<rparr>]\<rparr>))
           else (b4, st)))))))))))"

definition realtime_row :: "real \<Rightarrow> string \<Rightarrow> basic \<Rightarrow> realtime_record" where
  "realtime_row simulation_time veh_id q =
     \<lparr>timestep_sec = simulation_time, vehicle_id = veh_id, vehicle_type = vtype q,
      speed_ms = speed q, speed_kmh = speed q * 3.6,
      x_position_m = fst (position q), y_position_m = snd (position q),
      lane = lane_id q, distance_traveled_m = distance q,
      waiting_time_sec = waiting_time q\<rparr>"

text \<open>\<open>if max_battery > 0:\<close> build the battery row and append it.\<close>

definition add_battery_record ::
  "real \<Rightarrow> string \<Rightarrow> basic \<Rightarrow> battery_vars \<Rightarrow> exporter \<Rightarrow> exporter \<times> exn option" where
  "add_battery_record simulation_time veh_id q b st =
     (if max_battery b > 0
      then
        (case soc_percent_of (battery_capacity b) (max_battery b) of
           Inl e \<Rightarrow> (st, Some e)
         | Inr soc \<Rightarrow>
             (st\<lparr>battery_data := battery_data st @
                [\<lparr>timestep_sec = simulation_time, vehicle_id = veh_id, vehicle_type = vtype q,
                  speed_ms = speed q, speed_kmh = speed q * 3.6,
                  x_position_m = fst (position q), y_position_m = snd (position q),
                  lane = lane_id q, distance_traveled_m = distance q,
                  waiting_time_sec = waiting_time q,
                  actualBatteryCapacity_Wh = battery_capacity b,
                  maximumBatteryCapacity_Wh = max_battery b,
                  battery_soc_percent = soc,
                  totalEnergyConsumed_Wh = energy_consumed b,
                  totalEnergyRegenerated_Wh = energy_regen b,
                  netEnergyUsed_Wh = energy_consumed b - energy_regen b,
                  chargingStationId = charging_station b\<rparr>]\<rparr>, None))
      else (st, None))"

text \<open>The trip entry of the vehicle is created on first sight, then updated.\<close>

definition track_trip :: "real \<Rightarrow> string \<Rightarrow> basic \<Rightarrow> exporter \<Rightarrow> exporter" where
  "track_trip simulation_time veh_id q st =
     (let td =
            (case map_of (trip_data st) veh_id of
               None \<Rightarrow> AList.update veh_id
                 \<lparr>trip_vehicle_id = veh_id, trip_vehicle_type = vtype q,
                  depart_time = simulation_time, max_speed_kmh = 0,
                  total_waiting_time = 0, final_distance = 0\<rparr> (trip_data st)
             | Some _ \<Rightarrow> trip_data st);
          td' = AList.map_entry veh_id
            (\<lambda>t. t\<lparr>max_speed_kmh := max (max_speed_kmh t) (speed q * 3.6),
                   total_waiting_time := total_waiting_time t + waiting_time q,
                   final_distance := distance q\<rparr>) td
      in st\<lparr>trip_data := td'\<rparr>)"

text \<open>
  The outer \<open>try\<close> block for one vehicle: the state when the block ends, and the
  exception that ended it, if one did. Appends made before an exception stay.
\<close>

definition collect_vehicle_body ::
  "traci \<Rightarrow> (string \<Rightarrow> real option) \<Rightarrow> real \<Rightarrow> string \<Rightarrow> exporter \<Rightarrow> exporter \<times> exn option" where
  "collect_vehicle_body tr pf simulation_time veh_id st =
     (case basic_queries tr veh_id of
        Inl e \<Rightarrow> (st, Some e)
      | Inr q \<Rightarrow>
          (case battery_block tr pf simulation_time veh_id (vtype q) st of (b, st1) \<Rightarrow>
          (case add_battery_record simulation_time veh_id q b st1 of
             (st2, Some e) \<Rightarrow> (st2, Some e)
           | (st2, None) \<Rightarrow>
               (let st3 = st2\<lparr>realtime_data := realtime_data st2 @
                            [realtime_row simulation_time veh_id q]\<rparr>
                in (track_trip simulation_time veh_id q st3, None)))))"

text \<open>The two handlers: both go on to the next vehicle, the second after a warning.\<close>

definition collect_vehicle ::
  "traci \<Rightarrow> (string \<Rightarrow> real option) \<Rightarrow> real \<Rightarrow> string \<Rightarrow> exporter \<Rightarrow> out list \<times> exporter" where
  "collect_vehicle tr pf simulation_time veh_id st =
     (case collect_vehicle_body tr pf simulation_time veh_id st of
        (st', None) \<Rightarrow> ([], st')
      | (st', Some e) \<Rightarrow>
          if e = TraCIException then ([], st')
          else ([Line ''Warning: Error collecting data for {veh_id}: {e}'' [S veh_id, E e]], st'))"

fun collect_vehicles ::
  "traci \<Rightarrow> (string \<Rightarrow> real option) \<Rightarrow> real \<Rightarrow> string list \<Rightarrow> exporter \<Rightarrow> out list \<times> exporter" where
  "collect_vehicles tr pf simulation_time [] st = ([], st)"
| "collect_vehicles tr pf simulation_time (veh_id # rest) st =
     (case collect_vehicle tr pf simulation_time veh_id st of (o1, st1) \<Rightarrow>
      case collect_vehicles tr pf simulation_time rest st1 of (o2, st2) \<Rightarrow>
      (o1 @ o2, st2))"

text \<open>\<open>_collect_data\<close>; the list of vehicle ids is asked for outside any \<open>try\<close>.\<close>

definition collect_data ::
  "traci \<Rightarrow> (string \<Rightarrow> real option) \<Rightarrow> real \<Rightarrow> exporter \<Rightarrow> out list \<times> exporter \<times> exn option" where
  "collect_data tr pf simulation_time st =
     (case getIDList tr of
        Inl e \<Rightarrow> ([], st, Some e)
      | Inr vehicle_ids \<Rightarrow>
          (case collect_vehicles tr pf simulation_time vehicle_ids st of
             (outs, st') \<Rightarrow> (outs, st', None)))"

text \<open>\<open>int(x)\<close> of a float rounds towards zero.\<close>

definition py_trunc :: "real \<Rightarrow> int" where
  "py_trunc x = (if x \<ge> 0 then \<lfloor>x\<rfloor> else \<lceil>x\<rceil>)"

text \<open>The progress line, every ten seconds of simulated time.\<close>

definition progress :: "traci \<Rightarrow> real \<Rightarrow> out list \<times> exn option" where
  "progress tr simulation_time =
     (if py_trunc simulation_time mod 10 = 0 \<and> simulation_time > 0
      then
        (case getIDList tr of
           Inl e \<Rightarrow> ([], Some e)
         | Inr ids \<Rightarrow>
             ([Line ''Time: {int(simulation_time)}s | Active vehicles: {active_vehicles}''
                 [I (py_trunc simulation_time), I (int (length ids))]], None))
      else ([], None))"

text \<open>
  The simulation loop. \<open>cur\<close> is the session now and the list holds the session after
  each further \<open>simulationStep\<close>; a step beyond the last of them fails, the simulator
  being gone. The result is the exception that left the loop, or the last simulation
  time.
\<close>

fun simulation_loop ::
  "(string \<Rightarrow> real option) \<Rightarrow> real \<Rightarrow> traci \<Rightarrow> traci list \<Rightarrow> real \<Rightarrow> real \<Rightarrow> exporter \<Rightarrow>
   out list \<times> exporter \<times> (exn + real)" where
  "simulation_loop pf interval cur [] simulation_time next_collection_time st =
     (case getMinExpectedNumber cur of
        Inl e \<Rightarrow> ([], st, Inl e)
      | Inr n \<Rightarrow>
          if n > 0 then ([], st, Inl OtherException) else ([], st, Inr simulation_time))"
| "simulation_loop pf interval cur (nxt # later) simulation_time next_collection_time st =
     (case getMinExpectedNumber cur of
        Inl e \<Rightarrow> ([], st, Inl e)
      | Inr n \<Rightarrow>
          if n > 0
          then
            (case getTime nxt of
               Inl e \<Rightarrow> ([], st, Inl e)
             | Inr t \<Rightarrow>
                 (case (if t \<ge> next_collection_time
                        then (case collect_data nxt pf t st of
                                (o1, st1, x) \<Rightarrow> (o1, st1, x, next_collection_time + interval))
                        else ([], st, None, next_collection_time)) of
                    (o1, st1, Some e, nct) \<Rightarrow> (o1, st1, Inl e)
                  | (o1, st1, None, nct) \<Rightarrow>
                      (case progress nxt t of
                         (o2, Some e) \<Rightarrow> (o1 @ o2, st1, Inl e)
                       | (o2, None) \<Rightarrow>
                           (case simulation_loop pf interval nxt later t nct st1 of
                              (o3, st3, r) \<Rightarrow> (o1 @ o2 @ o3, st3, r)))))
          else ([], st, Inr simulation_time))"

text \<open>
  \<open>run_simulation\<close>. \<open>session\<close> is what \<open>traci.start\<close> gives: an exception, or the
  session at the start and after each step. Closing the session is taken to succeed.
\<close>

definition run_simulation ::
  "(string \<Rightarrow> real option) \<Rightarrow> bool \<Rightarrow> real \<Rightarrow> exn + traci \<times> traci list \<Rightarrow> exporter \<Rightarrow>
   out list \<times> exporter \<times> bool" where
  "run_simulation pf gui step_length session st =
     (let header =
            [Line (replicate 70 CHR ''='') [],
             Line ''STARTING SUMO SIMULATION'' [],
             Line (replicate 70 CHR ''='') [],
             Line ''Configuration: {self.sumocfg}'' [S (sumocfg st)],
             Line ''GUI Mode: {}'' [S (if gui then ''Enabled'' else ''Disabled'')],
             Line ''Output Folder: {self.output_folder}'' [S (output_folder st)],
             Line ''Data Collection Interval: {step_length} seconds'' [F step_length],
             Line (replicate 70 CHR ''='') [],
             (if gui then Line ''Starting SUMO-GUI... (Close the window when done)'' []
              else Line ''Starting SUMO in command-line mode...'' [])];
          failed = (\<lambda>e. [Line ''ERROR during simulation: {e}'' [E e],
                         Line ''Error type: {type(e).__name__}'' [E e]])
      in
      case session of
        Inl e \<Rightarrow> (header @ failed e, st, False)
      | Inr (first, later) \<Rightarrow>
          (case simulation_loop pf step_length first later 0 0 st of
             (o1, st1, Inl e) \<Rightarrow>
               (header @ [Line ''TraCI connection established'' []] @ o1 @ failed e, st1, False)
           | (o1, st1, Inr simulation_time) \<Rightarrow>
               (header @ [Line ''TraCI connection established'' []] @ o1 @
                  [Line ''Simulation completed!'' [],
                   Line ''Total simulation time: {simulation_time} seconds'' [F simulation_time],
                   Line ''Data records collected: {len(self.battery_data)}''
                     [I (int (length (battery_data st1)))]],
                st1, True)))"

section \<open>Sample inputs\<close>

text \<open>
  A conversion for the samples: unsigned decimal digits, which \<open>float\<close> and \<open>int\<close>
  read as the number they spell.
\<close>

definition digit_of :: "char \<Rightarrow> nat option" where
  "digit_of c = map_of [(CHR ''0'', 0), (CHR ''1'', 1), (CHR ''2'', 2), (CHR ''3'', 3),
     (CHR ''4'', 4), (CHR ''5'', 5), (CHR ''6'', 6), (CHR ''7'', 7), (CHR ''8'', 8),
     (CHR ''9'', 9)] c"

fun digits_value :: "string \<Rightarrow> nat \<Rightarrow> nat option" where
  "digits_value [] acc = Some acc"
| "digits_value (c # cs) acc =
     (case digit_of c of None \<Rightarrow> None | Some d \<Rightarrow> digits_value cs (10 * acc + d))"

definition decimal_float :: "string \<Rightarrow> real option" where
  "decimal_float s = (if s = [] then None else map_option real (digits_value s 0))"

definition decimal_int :: "string \<Rightarrow> int option" where
  "decimal_int s = (if s = [] then None else map_option int (digits_value s 0))"

text \<open>
  A network of two junctions, 5 m apart, with an internal edge, an edge between the two
  junctions whose lane declares 7 m, and an edge to a junction that is not there.
\<close>

definition demo_net :: element where
  "demo_net = Element ''net'' []
     [Element ''junction'' [(''id'', ''J1''), (''x'', ''0''), (''y'', ''0'')] [],
      Element ''junction'' [(''id'', ''J2''), (''x'', ''3''), (''y'', ''4'')] [],
      Element ''edge'' [(''id'', '':J1_0'')] [],
      Element ''edge'' [(''id'', ''E0''), (''from'', ''J1''), (''to'', ''J2'')]
        [Element ''lane'' [(''id'', ''E0_0''), (''length'', ''7'')] []],
      Element ''edge'' [(''id'', ''E9''), (''from'', ''J1''), (''to'', ''J7'')] []]"

definition demo_fs :: filesystem where
  "demo_fs p = (if p = ''Test1.net.xml'' then Some (412, Document demo_net) else None)"

definition demo_row :: conn where
  "demo_row = \<lparr>edge = Some ''E0'', from_node = ''J1'', to_node = ''J2'',
                declared = 7, calculated = 5\<rparr>"

definition demo_out :: "out list" where
  "demo_out =
     [Line (replicate 80 CHR ''='') [],
      Line ''SUMO NETWORK ANALYSIS'' [],
      Line (replicate 80 CHR ''='') [],
      Line ''Found {len(nodes)} nodes:'' [I 2],
      Line ''  {node_id}: ({x:.2f}, {y:.2f})'' [S ''J1'', F 0, F 0],
      Line ''  {node_id}: ({x:.2f}, {y:.2f})'' [S ''J2'', F 3, F 4],
      Line ''EDGE CONNECTIONS AND DISTANCES:'' [],
      Line (replicate 60 CHR ''-'') [],
      Line ''Edge ID  From   To     Length (m)   Calculated'' [],
      Line (replicate 60 CHR ''-'') [],
      Line ''{edge_id:<8} {from:<6} {to:<6} {declared:<12.1f} {calculated:<12.1f}''
        [S ''E0'', S ''J1'', S ''J2'', F 7, F 5],
      Line (replicate 80 CHR ''='') [],
      Line ''DISTANCE VERIFICATION SUMMARY'' [],
      Line (replicate 80 CHR ''='') [],
      Line ''Total network length (declared): {:.1f}m'' [F 7],
      Line ''Total network length (calculated): {:.1f}m'' [F 5],
      Line ''Difference: {:.1f}m'' [F 2],
      Line ''DISCREPANCY ANALYSIS:'' [],
      Line (replicate 40 CHR ''-'') [],
      Line ''ROUTE DISTANCE ANALYSIS:'' [],
      Line (replicate 40 CHR ''-'') [],
      Line ''Main route (E0-E1-E2-E3): {:.1f}m'' [F 7],
      Line ''Alternative route (E4-E11-E10-E1-E2-E3): {:.1f}m'' [F 0]]"

text \<open>A network whose only junction has the empty id, with an edge from it to itself.\<close>

definition blank_edge :: element where
  "blank_edge = Element ''edge'' [(''id'', ''E0''), (''from'', []), (''to'', [])] []"

definition blank_net :: element where
  "blank_net = Element ''net'' []
     [Element ''junction'' [(''id'', []), (''x'', ''0''), (''y'', ''0'')] [], blank_edge]"

definition blank_fs :: filesystem where
  "blank_fs p = (if p = ''Test1.net.xml'' then Some (160, Document blank_net) else None)"

text \<open>A file system in which every path holds a file that is not well-formed XML.\<close>

definition broken_fs :: filesystem where
  "broken_fs p = Some (17, Malformed)"

text \<open>A trip that took no time, and a vehicle whose battery has no capacity.\<close>

definition still_trip :: element where
  "still_trip = Element ''tripinfo''
     [(''id'', ''ev1''), (''vType'', ''car''), (''depart'', ''3''), (''arrival'', ''3''),
      (''duration'', ''0''), (''routeLength'', ''120''), (''maxSpeed'', ''9'')] []"

definition flat_vehicle :: element where
  "flat_vehicle = Element ''vehicle''
     [(''id'', ''ev1''), (''energyConsumed'', ''2''), (''actualBatteryCapacity'', ''40''),
      (''maximumBatteryCapacity'', ''0'')] []"

text \<open>
  A directory in which \<open>fcd.xml\<close> holds 10 bytes that do not parse,
  \<open>chargingstations.xml\<close> is empty, and there is no \<open>tripinfo.xml\<close>; and the same
  directory later, when \<open>fcd.xml\<close> has shrunk to 4 bytes.
\<close>

definition live_fs :: filesystem where
  "live_fs p =
     (if p = ''fcd.xml'' then Some (10, Malformed)
      else if p = ''chargingstations.xml'' then Some (0, Malformed)
      else None)"

definition later_fs :: filesystem where
  "later_fs p =
     (if p = ''fcd.xml'' then Some (4, Malformed)
      else if p = ''chargingstations.xml'' then Some (0, Malformed)
      else None)"

text \<open>
  A session with three vehicles: \<open>ev1\<close> answers every query and has a battery of
  capacity 100 that is charging at \<open>cs1\<close>; \<open>gone\<close> has left, so its speed query
  fails; \<open>bus3\<close> answers the basic queries and has no battery device.
\<close>

definition demo_parameter :: "string \<Rightarrow> string \<Rightarrow> exn + string" where
  "demo_parameter veh_id key =
     (if veh_id = ''ev1''
      then
        (if key = ''device.battery.actualBatteryCapacity'' then Inr ''40''
         else if key = ''device.battery.maximumBatteryCapacity'' then Inr ''100''
         else if key = ''device.battery.totalEnergyConsumed'' then Inr ''5''
         else if key = ''device.battery.totalEnergyRegenerated'' then Inr ''1''
         else if key = ''device.battery.chargingStationId'' then Inr ''cs1''
         else Inl TraCIException)
      else Inl TraCIException)"

definition demo_traci :: traci where
  "demo_traci =
     \<lparr>getMinExpectedNumber = Inr 0,
      getTime = Inr 1,
      getIDList = Inr [''ev1'', ''gone'', ''bus3''],
      getSpeed = (\<lambda>v. if v = ''gone'' then Inl TraCIException else Inr 10),
      getPosition = (\<lambda>v. Inr (3, 4)),
      getLaneID = (\<lambda>v. Inr ''E0_0''),
      getDistance = (\<lambda>v. Inr 25),
      getWaitingTime = (\<lambda>v. Inr 0),
      getTypeID = (\<lambda>v. Inr (if v = ''ev1'' then ''ev'' else ''bus'')),
      getParameter = demo_parameter\<rparr>"

definition demo_exporter :: exporter where
  "demo_exporter = new_exporter ''Test1.sumocfg'' ''simulation_outputs''"

text \<open>A run of one step: one vehicle is still expected at the start, none after it.\<close>

definition demo_session :: "exn + traci \<times> traci list" where
  "demo_session = Inr (demo_traci\<lparr>getMinExpectedNumber := Inr 1\<rparr>, [demo_traci])"

text \<open>
  A trip of 120 m in 20 s, a vehicle whose battery is half full, and a directory that
  holds a trip file with the moving and the still trip and a battery file with one
  timestep of the two vehicles.
\<close>

definition moving_trip :: element where
  "moving_trip = Element ''tripinfo''
     [(''id'', ''ev2''), (''vType'', ''car''), (''depart'', ''0''), (''arrival'', ''20''),
      (''duration'', ''20''), (''routeLength'', ''120''), (''maxSpeed'', ''9'')] []"

definition half_vehicle :: element where
  "half_vehicle = Element ''vehicle''
     [(''id'', ''ev2''), (''energyConsumed'', ''3''), (''actualBatteryCapacity'', ''40''),
      (''maximumBatteryCapacity'', ''80'')] []"

definition trips_fs :: filesystem where
  "trips_fs p =
     (if p = ''tripinfo.xml''
      then Some (300, Document (Element ''tripinfos'' [] [moving_trip, still_trip]))
      else if p = ''battery.xml''
      then Some (200, Document (Element ''battery-export'' []
             [Element ''timestep'' [(''time'', ''1'')] [half_vehicle, flat_vehicle]]))
      else None)"

section \<open>Predicates of the statements\<close>

text \<open>
  A row whose two junctions are in \<open>nodes\<close> and whose calculated length is the
  Euclidean distance between their coordinates.
\<close>

definition row_ok :: "nodes \<Rightarrow> conn \<Rightarrow> bool" where
  "row_ok nodes c \<longleftrightarrow> (\<exists>x1 y1 x2 y2.
      map_of nodes (Some (from_node c)) = Some (x1, y1) \<and>
      map_of nodes (Some (to_node c)) = Some (x2, y2) \<and>
      calculated c = sqrt ((x2 - x1)\<^sup>2 + (y2 - y1)\<^sup>2))"

text \<open>Every entry of \<open>ns\<close> holds the converted coordinates of a junction of \<open>js\<close>.\<close>

definition from_junctions :: "(string \<Rightarrow> real option) \<Rightarrow> element list \<Rightarrow> nodes \<Rightarrow> bool" where
  "from_junctions pf js ns \<longleftrightarrow> (\<forall>k x y. map_of ns k = Some (x, y) \<longrightarrow>
     (\<exists>j\<in>set js. get_attr j ''id'' = k \<and>
        py_float_default pf (get_attr j ''x'') 0 = ([], Inr x) \<and>
        py_float_default pf (get_attr j ''y'') 0 = ([], Inr y)))"

text \<open>
  Which edges get a row. \<open>claimed_kept\<close> is the condition in the words of the
  specification: the id does not start with a colon and both ends are among the
  junctions. \<open>kept\<close> is the condition the loop applies: both ends must also be
  non-empty text.
\<close>

definition starts_colon :: "string option \<Rightarrow> bool" where
  "starts_colon edge_id = (case edge_id of None \<Rightarrow> False | Some s \<Rightarrow> startswith s '':'')"

definition claimed_kept :: "nodes \<Rightarrow> element \<Rightarrow> bool" where
  "claimed_kept nodes e =
     (\<not> starts_colon (get_attr e ''id'') \<and>
      (case (get_attr e ''from'', get_attr e ''to'') of
         (Some f, Some t) \<Rightarrow> node_in f nodes \<and> node_in t nodes
       | _ \<Rightarrow> False))"

definition kept :: "nodes \<Rightarrow> element \<Rightarrow> bool" where
  "kept nodes e =
     (\<not> starts_colon (get_attr e ''id'') \<and>
      (case (get_attr e ''from'', get_attr e ''to'') of
         (Some f, Some t) \<Rightarrow> f \<noteq> [] \<and> t \<noteq> [] \<and> node_in f nodes \<and> node_in t nodes
       | _ \<Rightarrow> False))"

text \<open>The id and the two ends of a row and of an edge element; the line printed for a row.\<close>

definition row_ends :: "conn \<Rightarrow> string option \<times> string option \<times> string option" where
  "row_ends c = (edge c, Some (from_node c), Some (to_node c))"

definition edge_ends :: "element \<Rightarrow> string option \<times> string option \<times> string option" where
  "edge_ends e = (get_attr e ''id'', get_attr e ''from'', get_attr e ''to'')"

definition row_line :: "conn \<Rightarrow> out" where
  "row_line c = Line ''{edge_id:<8} {from:<6} {to:<6} {declared:<12.1f} {calculated:<12.1f}''
     [fmt_plain (edge c), S (from_node c), S (to_node c), F (declared c), F (calculated c)]"

text \<open>
  The polling condition: the file is there and its size exceeds the last recorded
  size. \<open>new_size\<close> is the size recorded after the check, and \<open>reread_output\<close> is what
  the check prints: the update line and the reader's output when the file has grown,
  nothing otherwise.
\<close>

definition grown :: "filesystem \<Rightarrow> string \<Rightarrow> nat \<Rightarrow> bool" where
  "grown fs filename last_size =
     (case fs filename of None \<Rightarrow> False | Some (n, _) \<Rightarrow> n > last_size)"

definition new_size :: "filesystem \<Rightarrow> string \<Rightarrow> nat \<Rightarrow> nat" where
  "new_size fs filename last_size =
     (case fs filename of
        None \<Rightarrow> last_size
      | Some (n, _) \<Rightarrow> if n > last_size then n else last_size)"

definition reread_output ::
  "(string \<Rightarrow> real option) \<Rightarrow> (string \<Rightarrow> int option) \<Rightarrow> filesystem \<Rightarrow> string \<Rightarrow> nat \<Rightarrow>
   out list" where
  "reread_output pf pint fs filename last_size =
     (if grown fs filename last_size
      then Line ''Updated: {filename}'' [S filename] # fst (reread pf pint fs filename)
      else [])"

text \<open>The three size keys hold the sizes \<open>a\<close>, \<open>b\<close> and \<open>c\<close>.\<close>

definition tracked :: "(string \<rightharpoonup> nat) \<Rightarrow> nat \<Rightarrow> nat \<Rightarrow> nat \<Rightarrow> bool" where
  "tracked file_sizes a b c \<longleftrightarrow>
     file_sizes ''last_fcd_size'' = Some a \<and>
     file_sizes ''last_trip_size'' = Some b \<and>
     file_sizes ''last_charging_size'' = Some c"

text \<open>
  What the handlers of \<open>_collect_data\<close> print for an exception, and the value of the
  local variable \<open>max_battery\<close> after the inner \<open>try\<close>: the converted maximum
  capacity when the actual and the maximum capacity were both read, 0 otherwise.
\<close>

definition warning :: "exn \<Rightarrow> string \<Rightarrow> out list" where
  "warning e veh_id =
     (if e = TraCIException then []
      else [Line ''Warning: Error collecting data for {veh_id}: {e}'' [S veh_id, E e]])"

definition parsed_max_battery :: "traci \<Rightarrow> (string \<Rightarrow> real option) \<Rightarrow> string \<Rightarrow> real" where
  "parsed_max_battery tr pf veh_id =
     (case float_parameter tr pf veh_id ''device.battery.actualBatteryCapacity'' of
        Inl _ \<Rightarrow> 0
      | Inr _ \<Rightarrow>
          (case float_parameter tr pf veh_id ''device.battery.maximumBatteryCapacity'' of
             Inl _ \<Rightarrow> 0
           | Inr mb \<Rightarrow> mb))"

text \<open>
  The second state holds everything the first holds, with rows appended: at most as
  many battery rows as real-time rows, each battery row with a positive maximum
  capacity.
\<close>

definition grows :: "exporter \<Rightarrow> exporter \<Rightarrow> bool" where
  "grows st st' \<longleftrightarrow> (\<exists>nb nr nc.
      battery_data st' = battery_data st @ nb \<and>
      realtime_data st' = realtime_data st @ nr \<and>
      charging_events st' = charging_events st @ nc \<and>
      length nb \<le> length nr \<and>
      (\<forall>r\<in>set nb. maximumBatteryCapacity_Wh r > 0))"

text \<open>
  What the polling loop prints over a list of passes, from the recorded sizes \<open>a\<close>,
  \<open>b\<close> and \<open>c\<close>: for each pass the output of the three checks and the sleep.
\<close>

fun polling_output ::
  "(string \<Rightarrow> real option) \<Rightarrow> (string \<Rightarrow> int option) \<Rightarrow> filesystem list \<Rightarrow>
   nat \<Rightarrow> nat \<Rightarrow> nat \<Rightarrow> out list" where
  "polling_output pf pint [] a b c = []"
| "polling_output pf pint (fs # later) a b c =
     reread_output pf pint fs ''fcd.xml'' a @
     reread_output pf pint fs ''tripinfo.xml'' b @
     reread_output pf pint fs ''chargingstations.xml'' c @ [Sleep 1] @
     polling_output pf pint later (new_size fs ''fcd.xml'' a)
       (new_size fs ''tripinfo.xml'' b) (new_size fs ''chargingstations.xml'' c)"

section \<open>The computations, step by step\<close>

lemma io_bind_Inr:
  "io_bind m f = (outs, Inr y) \<longleftrightarrow>
     (\<exists>o1 x o2. m = (o1, Inr x) \<and> f x = (o2, Inr y) \<and> outs = o1 @ o2)"
  by (auto simp: io_bind_def split: prod.splits sum.splits)

lemma io_then_Inr:
  "io_then m k = (outs, Inr y) \<longleftrightarrow>
     (\<exists>o1 x o2. m = (o1, Inr x) \<and> k = (o2, Inr y) \<and> outs = o1 @ o2)"
  by (simp add: io_then_def io_bind_Inr)

lemma io_return_eq [simp]: "io_return x = (outs, r) \<longleftrightarrow> outs = [] \<and> r = Inr x"
  by (auto simp: io_return_def)

lemma io_raise_eq [simp]: "io_raise e = (outs, r) \<longleftrightarrow> outs = [] \<and> r = Inl e"
  by (auto simp: io_raise_def)

lemma io_print_eq [simp]:
  "io_print f vs = (outs, r) \<longleftrightarrow> outs = [Line f vs] \<and> r = Inr ()"
  by (auto simp: io_print_def)

lemma hrule_eq [simp]:
  "hrule c n = (outs, r) \<longleftrightarrow> outs = [Line (replicate n c) []] \<and> r = Inr ()"
  by (simp add: hrule_def)

lemma io_try_Inr:
  "io_try m h = (outs, Inr y) \<longleftrightarrow>
     m = (outs, Inr y) \<or> (\<exists>o1 e o2. m = (o1, Inl e) \<and> h e = (o2, Inr y) \<and> outs = o1 @ o2)"
  by (auto simp: io_try_def split: prod.splits sum.splits)

text \<open>A property of the loop variables that every pass keeps holds when the loop ends.\<close>

lemma io_fold_invariant:
  assumes "io_fold f xs s = (outs, Inr s')" and "P s"
    and "\<And>x s o1 s1. x \<in> set xs \<Longrightarrow> P s \<Longrightarrow> f x s = (o1, Inr s1) \<Longrightarrow> P s1"
  shows "P s'"
  using assms
proof (induction xs arbitrary: s outs)
  case Nil
  then show ?case by simp
next
  case (Cons x xs)
  from Cons.prems(1) obtain o1 s1 o2 where
    a: "f x s = (o1, Inr s1)" and b: "io_fold f xs s1 = (o2, Inr s')"
    by (auto simp: io_bind_Inr)
  have "P s1" using Cons.prems(2) a Cons.prems(3)[of x s o1 s1] by simp
  moreover have "\<And>y t o3 t1. y \<in> set xs \<Longrightarrow> P t \<Longrightarrow> f y t = (o3, Inr t1) \<Longrightarrow> P t1"
    using Cons.prems(3) by (meson list.set_intros(2))
  ultimately show ?case using Cons.IH[OF b] by blast
qed

lemma ET_parse_Inr:
  "ET_parse fs p = (outs, Inr troot) \<longleftrightarrow>
     outs = [] \<and> (\<exists>sz. fs p = Some (sz, Document troot))"
  by (auto simp: ET_parse_def split: option.splits prod.splits content.splits)

lemma py_float_default_Inr:
  "py_float_default pf v d = (outs, Inr x) \<Longrightarrow> outs = []"
  by (auto simp: py_float_default_def split: option.splits)

lemma nodes_lookup_Inr:
  "nodes_lookup nodes k = (outs, Inr c) \<longleftrightarrow> outs = [] \<and> map_of nodes (Some k) = Some c"
  by (auto simp: nodes_lookup_def split: option.splits)

lemmas run_defs =
  analyze_network_def analyze_body_def ET_parse_def analysis_def extract_nodes_def
  extract_edges_def findall_def add_junction_def get_attr_def py_float_default_def
  py_float_def decimal_float_def decimal_int_def digit_of_def io_bind_def io_then_def
  io_try_def io_return_def io_raise_def io_print_def io_lift_def io_sleep_def hrule_def
  io_foreach_def print_node_def fmt_plain_def fmt_width_def edge_step_def is_internal_def
  startswith_def node_in_def nodes_lookup_def declared_length_of_def find_child_def
  summary_def py_sum_def print_discrepancy_def in_route_def main_route_def alt_route_def
  Let_def

lemma demo_analysis:
  "analyze_network decimal_float demo_fs ''Test1.net.xml'' = (demo_out, Inr (Some [demo_row]))"
  by (simp add: run_defs demo_fs_def demo_net_def demo_out_def demo_row_def)

subsection \<open>The rows of the network analysis\<close>

lemma edge_step_row_ok:
  assumes "edge_step pf nodes e cs = (outs, Inr cs')" and "\<forall>c\<in>set cs. row_ok nodes c"
  shows "\<forall>c\<in>set cs'. row_ok nodes c"
  using assms
  by (auto simp: edge_step_def Let_def io_bind_Inr io_then_Inr nodes_lookup_Inr row_ok_def
      split: if_splits option.splits prod.splits)

lemma extract_edges_row_ok:
  assumes "extract_edges pf nodes edges = (outs, Inr cs)"
  shows "\<forall>c\<in>set cs. row_ok nodes c"
  using assms unfolding extract_edges_def
  by (rule io_fold_invariant) (auto dest: edge_step_row_ok)

lemma add_junction_from:
  assumes "add_junction pf j ns = (outs, Inr ns')" and "from_junctions pf js ns"
    and "j \<in> set js"
  shows "from_junctions pf js ns'"
proof -
  from assms(1) obtain x y where
    x: "py_float_default pf (get_attr j ''x'') 0 = ([], Inr x)" and
    y: "py_float_default pf (get_attr j ''y'') 0 = ([], Inr y)" and
    ns': "ns' = AList.update (get_attr j ''id'') (x, y) ns"
    by (auto simp: add_junction_def Let_def io_bind_Inr dest: py_float_default_Inr)
  show ?thesis
    unfolding from_junctions_def
  proof (intro allI impI)
    fix k a b assume "map_of ns' k = Some (a, b)"
    then show "\<exists>j\<in>set js. get_attr j ''id'' = k \<and>
        py_float_default pf (get_attr j ''x'') 0 = ([], Inr a) \<and>
        py_float_default pf (get_attr j ''y'') 0 = ([], Inr b)"
      using assms(2,3) x y unfolding ns' from_junctions_def
      by (cases "k = get_attr j ''id''") (auto simp: update_conv')
  qed
qed

lemma extract_nodes_from:
  assumes "extract_nodes pf troot = (outs, Inr ns)"
  shows "from_junctions pf (findall troot ''junction'') ns"
  using assms unfolding extract_nodes_def
  by (rule io_fold_invariant) (auto simp: from_junctions_def dest: add_junction_from)

lemma analyze_network_Some:
  assumes "analyze_network pf fs net_file = (outs, Inr (Some cs))"
  shows "\<exists>sz troot. fs net_file = Some (sz, Document troot) \<and>
           analysis pf troot = (outs, Inr cs)"
  using assms
  by (auto simp: analyze_network_def analyze_body_def io_try_Inr io_bind_Inr io_then_Inr
      ET_parse_Inr split: if_splits)

lemma analysis_Inr:
  assumes "analysis pf troot = (outs, Inr cs)"
  shows "\<exists>o1 ns o2 o3. extract_nodes pf troot = (o1, Inr ns) \<and>
           extract_edges pf ns (findall troot ''edge'') = (o2, Inr cs) \<and>
           summary cs = (o3, Inr ()) \<and> set o3 \<subseteq> set outs"
  using assms
  by (auto simp: analysis_def io_bind_Inr io_then_Inr)

text \<open>
  C1. Every row of the connections list that \<open>analyze_network\<close> returns has, as its
  calculated length, the Euclidean distance between the coordinates stored for its
  from-junction and its to-junction; those coordinates are the converted \<open>x\<close> and \<open>y\<close>
  attributes of junctions of the parsed file that carry these ids.
\<close>

theorem calculated_is_euclidean_distance:
  assumes "analyze_network pf fs net_file = (outs, Inr (Some connections))"
    and "c \<in> set connections"
  shows "\<exists>sz troot o1 nodes jf jt x1 y1 x2 y2.
           fs net_file = Some (sz, Document troot) \<and>
           extract_nodes pf troot = (o1, Inr nodes) \<and>
           map_of nodes (Some (from_node c)) = Some (x1, y1) \<and>
           map_of nodes (Some (to_node c)) = Some (x2, y2) \<and>
           jf \<in> set (findall troot ''junction'') \<and>
           get_attr jf ''id'' = Some (from_node c) \<and>
           py_float_default pf (get_attr jf ''x'') 0 = ([], Inr x1) \<and>
           py_float_default pf (get_attr jf ''y'') 0 = ([], Inr y1) \<and>
           jt \<in> set (findall troot ''junction'') \<and>
           get_attr jt ''id'' = Some (to_node c) \<and>
           py_float_default pf (get_attr jt ''x'') 0 = ([], Inr x2) \<and>
           py_float_default pf (get_attr jt ''y'') 0 = ([], Inr y2) \<and>
           calculated c = sqrt ((x2 - x1)\<^sup>2 + (y2 - y1)\<^sup>2)"
proof -
  from analyze_network_Some[OF assms(1)] obtain sz troot where
    src: "fs net_file = Some (sz, Document troot)" and
    an: "analysis pf troot = (outs, Inr connections)"
    by blast
  from analysis_Inr[OF an] obtain o1 ns o2 where
    ns: "extract_nodes pf troot = (o1, Inr ns)" and
    es: "extract_edges pf ns (findall troot ''edge'') = (o2, Inr connections)"
    by blast
  from extract_edges_row_ok[OF es] assms(2) obtain x1 y1 x2 y2 where
    f: "map_of ns (Some (from_node c)) = Some (x1, y1)" and
    t: "map_of ns (Some (to_node c)) = Some (x2, y2)" and
    d: "calculated c = sqrt ((x2 - x1)\<^sup>2 + (y2 - y1)\<^sup>2)"
    unfolding row_ok_def by blast
  have fj: "from_junctions pf (findall troot ''junction'') ns"
    by (rule extract_nodes_from[OF ns])
  from fj f obtain jf where
    jf: "jf \<in> set (findall troot ''junction'')" "get_attr jf ''id'' = Some (from_node c)"
      "py_float_default pf (get_attr jf ''x'') 0 = ([], Inr x1)"
      "py_float_default pf (get_attr jf ''y'') 0 = ([], Inr y1)"
    unfolding from_junctions_def by blast
  from fj t obtain jt where
    jt: "jt \<in> set (findall troot ''junction'')" "get_attr jt ''id'' = Some (to_node c)"
      "py_float_default pf (get_attr jt ''x'') 0 = ([], Inr x2)"
      "py_float_default pf (get_attr jt ''y'') 0 = ([], Inr y2)"
    unfolding from_junctions_def by blast
  from src ns f t jf jt d show ?thesis by blast
qed

theorem calculated_is_euclidean_distance_witness:
  "analyze_network decimal_float demo_fs ''Test1.net.xml'' = (demo_out, Inr (Some [demo_row])) \<and>
   demo_row \<in> set [demo_row] \<and>
   (\<exists>x1 y1 x2 y2. calculated demo_row = sqrt ((x2 - x1)\<^sup>2 + (y2 - y1)\<^sup>2)) \<and>
   calculated demo_row = 5"
proof -
  have "demo_row \<in> set [demo_row]" by simp
  from calculated_is_euclidean_distance[OF demo_analysis this]
  have "\<exists>x1 y1 x2 y2. calculated demo_row = sqrt ((x2 - x1)\<^sup>2 + (y2 - y1)\<^sup>2)"
    by blast
  then show ?thesis using demo_analysis by (simp add: demo_row_def)
qed

subsection \<open>Which edges get a row\<close>

lemma is_internal_starts_colon: "is_internal v = starts_colon v"
  by (auto simp: is_internal_def starts_colon_def startswith_def split: option.splits)

lemma fmt_width_Inr:
  "fmt_width v = (outs, Inr f) \<longleftrightarrow> outs = [] \<and> (\<exists>s. v = Some s \<and> f = S s)"
  by (auto simp: fmt_width_def split: option.splits)

lemma declared_length_of_Inr:
  "declared_length_of pf e = (outs, Inr d) \<Longrightarrow> outs = []"
  by (auto simp: declared_length_of_def split: option.splits dest: py_float_default_Inr)

lemma edge_step_cases:
  assumes "edge_step pf nodes e cs = (outs, Inr cs')"
  shows "(kept nodes e \<and> (\<exists>c. cs' = cs @ [c] \<and> row_ends c = edge_ends e \<and> outs = [row_line c]))
       \<or> (\<not> kept nodes e \<and> cs' = cs \<and> outs = [])"
  using assms
  by (auto simp: edge_step_def Let_def io_bind_Inr io_then_Inr nodes_lookup_Inr fmt_width_Inr
      kept_def is_internal_starts_colon row_ends_def edge_ends_def row_line_def fmt_plain_def
      dest!: declared_length_of_Inr split: if_splits option.splits prod.splits)

lemma edge_loop_rows:
  assumes "io_fold (edge_step pf nodes) edges cs = (outs, Inr cs')"
  shows "\<exists>new. cs' = cs @ new \<and>
           map row_ends new = map edge_ends (filter (kept nodes) edges) \<and>
           outs = map row_line new"
  using assms
proof (induction edges arbitrary: cs outs)
  case Nil
  then show ?case by simp
next
  case (Cons e edges)
  from Cons.prems obtain o1 cs1 o2 where
    a: "edge_step pf nodes e cs = (o1, Inr cs1)" and
    b: "io_fold (edge_step pf nodes) edges cs1 = (o2, Inr cs')" and
    c: "outs = o1 @ o2"
    by (auto simp: io_bind_Inr)
  from Cons.IH[OF b] obtain new where
    n: "cs' = cs1 @ new" "map row_ends new = map edge_ends (filter (kept nodes) edges)"
       "o2 = map row_line new"
    by blast
  from edge_step_cases[OF a] show ?case
  proof
    assume "kept nodes e \<and>
      (\<exists>c. cs1 = cs @ [c] \<and> row_ends c = edge_ends e \<and> o1 = [row_line c])"
    then obtain r where
      "kept nodes e" "cs1 = cs @ [r]" "row_ends r = edge_ends e" "o1 = [row_line r]"
      by blast
    with n c show ?thesis by (intro exI[of _ "r # new"]) simp
  next
    assume "\<not> kept nodes e \<and> cs1 = cs \<and> o1 = []"
    with n c show ?thesis by (intro exI[of _ new]) simp
  qed
qed

text \<open>
  C4, as the specification states it, fails: an edge whose ends are the empty text, in a
  network that has a junction with the empty id, has an id without a colon and both ends
  among the junctions, and gets no row.
\<close>

theorem empty_ends_counterexample:
  "extract_nodes decimal_float blank_net = ([], Inr [(Some [], (0, 0))]) \<and>
   findall blank_net ''edge'' = [blank_edge] \<and>
   claimed_kept [(Some [], (0, 0))] blank_edge \<and>
   snd (analyze_network decimal_float blank_fs ''Test1.net.xml'') = Inr (Some [])"
  by (simp add: run_defs blank_fs_def blank_net_def blank_edge_def claimed_kept_def
      starts_colon_def)

text \<open>
  C4, amended. When \<open>analyze_network\<close> returns its list, the rows are, in document
  order, exactly the edges whose id does not start with a colon and whose from and to
  attributes are both non-empty ids of parsed junctions: one row and one printed line for
  each such edge, nothing for any other edge.
\<close>

theorem rows_are_the_kept_edges:
  assumes "analyze_network pf fs net_file = (outs, Inr (Some connections))"
  shows "\<exists>sz troot o1 nodes o2.
           fs net_file = Some (sz, Document troot) \<and>
           extract_nodes pf troot = (o1, Inr nodes) \<and>
           extract_edges pf nodes (findall troot ''edge'') = (o2, Inr connections) \<and>
           map row_ends connections =
             map edge_ends (filter (kept nodes) (findall troot ''edge'')) \<and>
           o2 = map row_line connections"
proof -
  from analyze_network_Some[OF assms] obtain sz troot where
    src: "fs net_file = Some (sz, Document troot)" and
    an: "analysis pf troot = (outs, Inr connections)"
    by blast
  from analysis_Inr[OF an] obtain o1 ns o2 where
    ns: "extract_nodes pf troot = (o1, Inr ns)" and
    es: "extract_edges pf ns (findall troot ''edge'') = (o2, Inr connections)"
    by blast
  from es have "io_fold (edge_step pf ns) (findall troot ''edge'') [] = (o2, Inr connections)"
    by (simp add: extract_edges_def)
  from edge_loop_rows[OF this] have
    "map row_ends connections = map edge_ends (filter (kept ns) (findall troot ''edge''))"
    "o2 = map row_line connections"
    by auto
  with src ns es show ?thesis by blast
qed

theorem rows_are_the_kept_edges_witness:
  "analyze_network decimal_float demo_fs ''Test1.net.xml'' = (demo_out, Inr (Some [demo_row])) \<and>
   (\<exists>sz troot o1 nodes o2.
      demo_fs ''Test1.net.xml'' = Some (sz, Document troot) \<and>
      extract_nodes decimal_float troot = (o1, Inr nodes) \<and>
      extract_edges decimal_float nodes (findall troot ''edge'') = (o2, Inr [demo_row]) \<and>
      map row_ends [demo_row] = map edge_ends (filter (kept nodes) (findall troot ''edge'')) \<and>
      o2 = map row_line [demo_row])"
  using rows_are_the_kept_edges[OF demo_analysis] demo_analysis by blast

subsection \<open>The summary\<close>

lemma py_sum_sum_list: "py_sum xs = sum_list xs"
proof -
  have "foldl (+) a xs = a + sum_list xs" for a :: real
    by (induction xs arbitrary: a) (simp_all add: algebra_simps)
  then show ?thesis by (simp add: py_sum_def)
qed

lemma in_route_set: "in_route v route \<longleftrightarrow> v \<in> Some ` set route"
  by (auto simp: in_route_def split: option.splits)

lemma summary_lines:
  assumes "summary cs = (outs, Inr u)"
  shows "Line ''Total network length (declared): {:.1f}m''
           [F (py_sum (map declared cs))] \<in> set outs"
    and "Line ''Total network length (calculated): {:.1f}m''
           [F (py_sum (map calculated cs))] \<in> set outs"
    and "Line ''Main route (E0-E1-E2-E3): {:.1f}m''
           [F (py_sum (map declared (filter (\<lambda>c. in_route (edge c) main_route) cs)))]
           \<in> set outs"
    and "Line ''Alternative route (E4-E11-E10-E1-E2-E3): {:.1f}m''
           [F (py_sum (map declared (filter (\<lambda>c. in_route (edge c) alt_route) cs)))]
           \<in> set outs"
  using assms
  by (auto simp: summary_def Let_def io_then_Inr)

text \<open>
  C6. When \<open>analyze_network\<close> returns its list, it has printed the sum of the declared
  lengths of all rows, the sum of their calculated lengths, the sum of the declared
  lengths of the rows whose edge is E0, E1, E2 or E3, and the same sum over the rows
  whose edge is E4, E11, E10, E1, E2 or E3.
\<close>

theorem summary_totals:
  assumes "analyze_network pf fs net_file = (outs, Inr (Some connections))"
  shows "Line ''Total network length (declared): {:.1f}m''
           [F (sum_list (map declared connections))] \<in> set outs \<and>
         Line ''Total network length (calculated): {:.1f}m''
           [F (sum_list (map calculated connections))] \<in> set outs \<and>
         Line ''Main route (E0-E1-E2-E3): {:.1f}m''
           [F (sum_list (map declared (filter
              (\<lambda>c. edge c \<in> {Some ''E0'', Some ''E1'', Some ''E2'', Some ''E3''})
              connections)))] \<in> set outs \<and>
         Line ''Alternative route (E4-E11-E10-E1-E2-E3): {:.1f}m''
           [F (sum_list (map declared (filter
              (\<lambda>c. edge c \<in> {Some ''E4'', Some ''E11'', Some ''E10'', Some ''E1'',
                              Some ''E2'', Some ''E3''})
              connections)))] \<in> set outs"
proof -
  from analyze_network_Some[OF assms] obtain sz troot where
    an: "analysis pf troot = (outs, Inr connections)"
    by blast
  from analysis_Inr[OF an] obtain o3 where
    sm: "summary connections = (o3, Inr ())" and sub: "set o3 \<subseteq> set outs"
    by blast
  have m: "(\<lambda>c. in_route (edge c) main_route) =
           (\<lambda>c. edge c \<in> {Some ''E0'', Some ''E1'', Some ''E2'', Some ''E3''})"
    by (auto simp: in_route_set main_route_def)
  have a: "(\<lambda>c. in_route (edge c) alt_route) =
           (\<lambda>c. edge c \<in> {Some ''E4'', Some ''E11'', Some ''E10'', Some ''E1'',
                           Some ''E2'', Some ''E3''})"
    by (auto simp: in_route_set alt_route_def)
  from summary_lines[OF sm] sub show ?thesis
    unfolding py_sum_sum_list m a by blast
qed

theorem summary_totals_witness:
  "analyze_network decimal_float demo_fs ''Test1.net.xml'' = (demo_out, Inr (Some [demo_row])) \<and>
   Line ''Total network length (declared): {:.1f}m'' [F 7] \<in> set demo_out \<and>
   Line ''Total network length (calculated): {:.1f}m'' [F 5] \<in> set demo_out \<and>
   Line ''Main route (E0-E1-E2-E3): {:.1f}m'' [F 7] \<in> set demo_out \<and>
   Line ''Alternative route (E4-E11-E10-E1-E2-E3): {:.1f}m'' [F 0] \<in> set demo_out"
  using summary_totals[OF demo_analysis] demo_analysis by (simp add: demo_row_def)

subsection \<open>Errors stay inside the operations\<close>

lemma io_try_raised:
  "m = (o1, Inl e) \<Longrightarrow> h e = (o2, r) \<Longrightarrow> io_try m h = (o1 @ o2, r)"
  by (simp add: io_try_def)

lemma io_try_returned: "m = (o1, Inr x) \<Longrightarrow> io_try m h = (o1, Inr x)"
  by (simp add: io_try_def)

lemma io_try_total:
  assumes "\<And>e. \<exists>o2 y. h e = (o2, Inr y)"
  shows "\<exists>outs r. io_try m h = (outs, Inr r)"
proof (cases m)
  case (Pair o1 res)
  show ?thesis
  proof (cases res)
    case (Inl e)
    from assms[of e] obtain o2 y where "h e = (o2, Inr y)" by blast
    with Pair Inl show ?thesis by (simp add: io_try_def)
  next
    case (Inr x)
    with Pair show ?thesis by (simp add: io_try_def)
  qed
qed

lemma analyze_network_returns: "\<exists>outs r. analyze_network pf fs p = (outs, Inr r)"
  unfolding analyze_network_def
  by (rule io_try_total) (simp add: io_then_def io_bind_def io_print_def io_return_def)

lemma analyze_network_raised:
  assumes "analyze_body pf fs p = (o1, Inl e)"
  shows "analyze_network pf fs p =
           (o1 @ [Line (if e = ParseError then ''Error parsing network file: {e}''
                        else ''Error analyzing network: {e}'') [E e]], Inr None)"
  using assms
  by (simp add: analyze_network_def io_try_def io_bind_def io_then_def io_print_def
      io_return_def)

lemma read_fcd_data_returns: "\<exists>outs. read_fcd_data pf fs p = (outs, Inr ())"
proof (cases "exists fs p")
  case True
  have "\<exists>outs r. io_try (read_fcd_body pf fs p)
          (\<lambda>e. io_print ''Error reading FCD data: {e}'' [E e]) = (outs, Inr r)"
    by (rule io_try_total) (simp add: io_print_def)
  with True show ?thesis by (simp add: read_fcd_data_def)
next
  case False
  then show ?thesis by (simp add: read_fcd_data_def io_print_def)
qed

lemma read_tripinfo_data_returns: "\<exists>outs. read_tripinfo_data pf fs p = (outs, Inr ())"
proof (cases "exists fs p")
  case True
  have "\<exists>outs r. io_try (read_tripinfo_body pf fs p)
          (\<lambda>e. io_print ''Error reading trip info: {e}'' [E e]) = (outs, Inr r)"
    by (rule io_try_total) (simp add: io_print_def)
  with True show ?thesis by (simp add: read_tripinfo_data_def)
next
  case False
  then show ?thesis by (simp add: read_tripinfo_data_def io_print_def)
qed

lemma read_battery_data_returns: "\<exists>outs. read_battery_data pf fs p = (outs, Inr ())"
proof (cases "exists fs p")
  case True
  have "\<exists>outs r. io_try (read_battery_body pf fs p)
          (\<lambda>e. if e = ParseError
                then io_print ''Skipping {file_path} (incomplete XML): {e}'' [S p, E e]
                else io_print ''Error reading battery data: {e}'' [E e]) = (outs, Inr r)"
    by (rule io_try_total) (simp add: io_print_def)
  with True show ?thesis by (simp add: read_battery_data_def)
next
  case False
  then show ?thesis by (simp add: read_battery_data_def io_print_def)
qed

lemma read_charging_stations_data_returns:
  "\<exists>outs. read_charging_stations_data pf pint fs p = (outs, Inr ())"
proof (cases "exists fs p")
  case True
  have "\<exists>outs r. io_try (read_charging_stations_body pf pint fs p)
          (\<lambda>e. io_print ''Error reading charging station data: {e}'' [E e]) = (outs, Inr r)"
    by (rule io_try_total) (simp add: io_print_def)
  with True show ?thesis by (simp add: read_charging_stations_data_def)
next
  case False
  then show ?thesis by (simp add: read_charging_stations_data_def io_print_def)
qed

text \<open>
  C2. None of the five operations lets an exception out, whatever the file system holds
  and whatever the conversions do. \<open>analyze_network\<close> returns; when the body of its
  \<open>try\<close> raises, it prints the message of the handler after what was already printed
  and returns \<open>None\<close>. Each reader returns; on a path where there is no file it prints
  its not-found line and nothing else, and when the body of its \<open>try\<close> raises it prints
  the handler's message after what was already printed.
\<close>

theorem operations_never_raise:
  "(\<exists>outs r. analyze_network pf fs p = (outs, Inr r)) \<and>
   (\<forall>o1 e. analyze_body pf fs p = (o1, Inl e) \<longrightarrow>
      analyze_network pf fs p =
        (o1 @ [Line (if e = ParseError then ''Error parsing network file: {e}''
                     else ''Error analyzing network: {e}'') [E e]], Inr None)) \<and>
   (\<exists>outs. read_fcd_data pf fs p = (outs, Inr ())) \<and>
   (\<exists>outs. read_tripinfo_data pf fs p = (outs, Inr ())) \<and>
   (\<exists>outs. read_battery_data pf fs p = (outs, Inr ())) \<and>
   (\<exists>outs. read_charging_stations_data pf pint fs p = (outs, Inr ())) \<and>
   (\<not> exists fs p \<longrightarrow>
      read_fcd_data pf fs p = ([Line ''FCD file not found: {file_path}'' [S p]], Inr ()) \<and>
      read_tripinfo_data pf fs p =
        ([Line ''Trip info file not found: {file_path}'' [S p]], Inr ()) \<and>
      read_battery_data pf fs p =
        ([Line ''Battery file not found: {file_path}'' [S p]], Inr ()) \<and>
      read_charging_stations_data pf pint fs p =
        ([Line ''Charging stations file not found: {file_path}'' [S p]], Inr ())) \<and>
   (exists fs p \<longrightarrow>
      (\<forall>o1 e. read_fcd_body pf fs p = (o1, Inl e) \<longrightarrow>
         read_fcd_data pf fs p = (o1 @ [Line ''Error reading FCD data: {e}'' [E e]], Inr ())) \<and>
      (\<forall>o1 e. read_tripinfo_body pf fs p = (o1, Inl e) \<longrightarrow>
         read_tripinfo_data pf fs p =
           (o1 @ [Line ''Error reading trip info: {e}'' [E e]], Inr ())) \<and>
      (\<forall>o1 e. read_battery_body pf fs p = (o1, Inl e) \<longrightarrow>
         read_battery_data pf fs p =
           (o1 @ [if e = ParseError
                  then Line ''Skipping {file_path} (incomplete XML): {e}'' [S p, E e]
                  else Line ''Error reading battery data: {e}'' [E e]], Inr ())) \<and>
      (\<forall>o1 e. read_charging_stations_body pf pint fs p = (o1, Inl e) \<longrightarrow>
         read_charging_stations_data pf pint fs p =
           (o1 @ [Line ''Error reading charging station data: {e}'' [E e]], Inr ())))"
proof -
  have missing: "\<not> exists fs p \<longrightarrow>
      read_fcd_data pf fs p = ([Line ''FCD file not found: {file_path}'' [S p]], Inr ()) \<and>
      read_tripinfo_data pf fs p =
        ([Line ''Trip info file not found: {file_path}'' [S p]], Inr ()) \<and>
      read_battery_data pf fs p =
        ([Line ''Battery file not found: {file_path}'' [S p]], Inr ()) \<and>
      read_charging_stations_data pf pint fs p =
        ([Line ''Charging stations file not found: {file_path}'' [S p]], Inr ())"
    by (simp add: read_fcd_data_def read_tripinfo_data_def read_battery_data_def
        read_charging_stations_data_def io_print_def)
  have raised: "exists fs p \<longrightarrow>
      (\<forall>o1 e. read_fcd_body pf fs p = (o1, Inl e) \<longrightarrow>
         read_fcd_data pf fs p = (o1 @ [Line ''Error reading FCD data: {e}'' [E e]], Inr ())) \<and>
      (\<forall>o1 e. read_tripinfo_body pf fs p = (o1, Inl e) \<longrightarrow>
         read_tripinfo_data pf fs p =
           (o1 @ [Line ''Error reading trip info: {e}'' [E e]], Inr ())) \<and>
      (\<forall>o1 e. read_battery_body pf fs p = (o1, Inl e) \<longrightarrow>
         read_battery_data pf fs p =
           (o1 @ [if e = ParseError
                  then Line ''Skipping {file_path} (incomplete XML): {e}'' [S p, E e]
                  else Line ''Error reading battery data: {e}'' [E e]], Inr ())) \<and>
      (\<forall>o1 e. read_charging_stations_body pf pint fs p = (o1, Inl e) \<longrightarrow>
         read_charging_stations_data pf pint fs p =
           (o1 @ [Line ''Error reading charging station data: {e}'' [E e]], Inr ()))"
    by (simp add: read_fcd_data_def read_tripinfo_data_def read_battery_data_def
        read_charging_stations_data_def io_try_def io_print_def)
  have an1: "\<exists>outs r. analyze_network pf fs p = (outs, Inr r)"
    by (rule analyze_network_returns)
  have an2: "\<forall>o1 e. analyze_body pf fs p = (o1, Inl e) \<longrightarrow>
      analyze_network pf fs p =
        (o1 @ [Line (if e = ParseError then ''Error parsing network file: {e}''
                     else ''Error analyzing network: {e}'') [E e]], Inr None)"
    by (intro allI impI) (rule analyze_network_raised)
  show ?thesis
    by (intro conjI)
      (rule an1 an2 read_fcd_data_returns read_tripinfo_data_returns
        read_battery_data_returns read_charging_stations_data_returns missing raised)+
qed

theorem operations_never_raise_witness:
  "\<not> exists demo_fs ''fcd.xml'' \<and>
   read_fcd_data decimal_float demo_fs ''fcd.xml'' =
     ([Line ''FCD file not found: {file_path}'' [S ''fcd.xml'']], Inr ()) \<and>
   read_battery_data decimal_float demo_fs ''fcd.xml'' =
     ([Line ''Battery file not found: {file_path}'' [S ''fcd.xml'']], Inr ()) \<and>
   exists broken_fs ''fcd.xml'' \<and>
   read_fcd_body decimal_float broken_fs ''fcd.xml'' = ([], Inl ParseError) \<and>
   read_fcd_data decimal_float broken_fs ''fcd.xml'' =
     ([Line ''Error reading FCD data: {e}'' [E ParseError]], Inr ()) \<and>
   analyze_body decimal_float demo_fs ''nowhere.xml'' = ([], Inl OSError) \<and>
   analyze_network decimal_float demo_fs ''nowhere.xml'' =
     ([Line ''Error analyzing network: {e}'' [E OSError]], Inr None) \<and>
   analyze_body decimal_float broken_fs ''Test1.net.xml'' = ([], Inl ParseError) \<and>
   analyze_network decimal_float broken_fs ''Test1.net.xml'' =
     ([Line ''Error parsing network file: {e}'' [E ParseError]], Inr None)"
proof -
  have a: "\<not> exists demo_fs ''fcd.xml''"
    by (simp add: exists_def demo_fs_def)
  have b: "exists broken_fs ''fcd.xml''"
    by (simp add: exists_def broken_fs_def)
  have c: "read_fcd_body decimal_float broken_fs ''fcd.xml'' = ([], Inl ParseError)"
    by (simp add: read_fcd_body_def ET_parse_def broken_fs_def io_bind_def io_raise_def)
  have d: "analyze_body decimal_float demo_fs ''nowhere.xml'' = ([], Inl OSError)"
    by (simp add: analyze_body_def ET_parse_def demo_fs_def io_bind_def io_raise_def)
  have e: "analyze_body decimal_float broken_fs ''Test1.net.xml'' = ([], Inl ParseError)"
    by (simp add: analyze_body_def ET_parse_def broken_fs_def io_bind_def io_raise_def)
  from a b c d e
    operations_never_raise[of decimal_float demo_fs "''fcd.xml''" decimal_int]
    operations_never_raise[of decimal_float broken_fs "''fcd.xml''" decimal_int]
    operations_never_raise[of decimal_float demo_fs "''nowhere.xml''" decimal_int]
    operations_never_raise[of decimal_float broken_fs "''Test1.net.xml''" decimal_int]
  show ?thesis by simp
qed

subsection \<open>Guarded ratios\<close>

lemma io_bind_Inl:
  "io_bind m f = (outs, Inl e) \<longleftrightarrow>
     m = (outs, Inl e) \<or> (\<exists>o1 x o2. m = (o1, Inr x) \<and> f x = (o2, Inl e) \<and> outs = o1 @ o2)"
  by (auto simp: io_bind_def split: prod.splits sum.splits)

lemma io_then_Inl:
  "io_then m k = (outs, Inl e) \<longleftrightarrow>
     m = (outs, Inl e) \<or> (\<exists>o1 x o2. m = (o1, Inr x) \<and> k = (o2, Inl e) \<and> outs = o1 @ o2)"
  by (simp add: io_then_def io_bind_Inl)

lemma py_float_Inl: "py_float pf v = (outs, Inl e) \<Longrightarrow> e \<noteq> ZeroDivisionError"
  by (auto simp: py_float_def split: option.splits)

lemma py_float_default_Inl:
  "py_float_default pf v d = (outs, Inl e) \<Longrightarrow> e \<noteq> ZeroDivisionError"
  by (auto simp: py_float_default_def split: option.splits)

lemma fmt_width_Inl: "fmt_width v = (outs, Inl e) \<Longrightarrow> e \<noteq> ZeroDivisionError"
  by (auto simp: fmt_width_def split: option.splits)

lemma avg_speed_of_eq:
  "avg_speed_of route_length duration =
     Inr (if duration > 0 then route_length / duration else 0)"
  by (simp add: avg_speed_of_def py_div_def)

lemma battery_percent_of_eq:
  "battery_percent_of bc mc = Inr (if mc > 0 then bc / mc * 100 else 0)"
  by (simp add: battery_percent_of_def py_div_def)

lemma soc_percent_of_eq:
  "soc_percent_of bc mb = Inr (if mb > 0 then bc / mb * 100 else 0)"
  by (simp add: soc_percent_of_def py_div_def)

lemma tripinfo_entry_Inl:
  assumes "tripinfo_entry pf el = (outs, Inl e)"
  shows "e \<noteq> ZeroDivisionError"
  using assms
  by (auto simp: tripinfo_entry_def Let_def io_bind_Inl io_then_Inl io_lift_def
      avg_speed_of_eq dest: py_float_Inl fmt_width_Inl)

lemma battery_vehicle_Inl:
  assumes "battery_vehicle pf el = (outs, Inl e)"
  shows "e \<noteq> ZeroDivisionError"
  using assms
  by (auto simp: battery_vehicle_def Let_def io_bind_Inl io_lift_def
      battery_percent_of_eq dest: py_float_default_Inl fmt_width_Inl)

subsection \<open>The polling loop\<close>

lemma reread_returns: "\<exists>outs. reread pf pint fs filename = (outs, Inr ())"
  using read_fcd_data_returns read_tripinfo_data_returns read_charging_stations_data_returns
  by (simp add: reread_def)

lemma check_file_eq:
  assumes "file_sizes size_key = Some last_size"
  shows "check_file pf pint fs (filename, size_key) file_sizes =
           (reread_output pf pint fs filename last_size,
            Inr (file_sizes(size_key \<mapsto> new_size fs filename last_size)))"
proof (cases "fs filename")
  case None
  with assms show ?thesis
    by (simp add: check_file_def exists_def reread_output_def grown_def new_size_def
        map_upd_triv)
next
  case (Some f)
  obtain n c where f: "f = (n, c)" by (cases f)
  show ?thesis
  proof (cases "n > last_size")
    case True
    obtain ro where ro: "reread pf pint fs filename = (ro, Inr ())"
      using reread_returns by blast
    from ro Some f True assms show ?thesis
      by (simp add: check_file_def exists_def getsize_def dict_get_def io_bind_def
          io_then_def io_return_def io_print_def reread_output_def grown_def new_size_def
          Let_def)
  next
    case False
    with Some f assms show ?thesis
      by (simp add: check_file_def exists_def getsize_def dict_get_def io_bind_def
          io_return_def reread_output_def grown_def new_size_def map_upd_triv)
  qed
qed

lemma monitor_iteration_eq:
  assumes "tracked file_sizes a b c"
  shows "monitor_iteration pf pint fs file_sizes =
           (reread_output pf pint fs ''fcd.xml'' a @
            reread_output pf pint fs ''tripinfo.xml'' b @
            reread_output pf pint fs ''chargingstations.xml'' c @ [Sleep 1],
            Inr (file_sizes
              (''last_fcd_size'' \<mapsto> new_size fs ''fcd.xml'' a,
               ''last_trip_size'' \<mapsto> new_size fs ''tripinfo.xml'' b,
               ''last_charging_size'' \<mapsto> new_size fs ''chargingstations.xml'' c)))"
proof -
  let ?s1 = "file_sizes(''last_fcd_size'' \<mapsto> new_size fs ''fcd.xml'' a)"
  let ?s2 = "?s1(''last_trip_size'' \<mapsto> new_size fs ''tripinfo.xml'' b)"
  from assms have k1: "file_sizes ''last_fcd_size'' = Some a"
    and k2: "?s1 ''last_trip_size'' = Some b"
    and k3: "?s2 ''last_charging_size'' = Some c"
    by (simp_all add: tracked_def)
  note c1 = check_file_eq[where file_sizes = file_sizes and size_key = "''last_fcd_size''"
      and pf = pf and pint = pint and fs = fs and filename = "''fcd.xml''", OF k1]
  note c2 = check_file_eq[where file_sizes = "?s1" and size_key = "''last_trip_size''"
      and pf = pf and pint = pint and fs = fs and filename = "''tripinfo.xml''", OF k2]
  note c3 = check_file_eq[where file_sizes = "?s2" and size_key = "''last_charging_size''"
      and pf = pf and pint = pint and fs = fs and filename = "''chargingstations.xml''",
      OF k3]
  show ?thesis
    unfolding monitor_iteration_def files_to_monitor_def io_fold.simps
    by (simp only: c1 c2 c3 io_bind_def io_then_def io_return_def io_sleep_def
        prod.case sum.case append_Nil append_Nil2 append_assoc)
qed

lemma new_size_ge: "last_size \<le> new_size fs filename last_size"
  by (simp add: new_size_def split: option.splits prod.splits)

lemma monitor_iteration_tracked:
  assumes "tracked file_sizes a b c"
  shows "\<exists>outs s' a' b' c'. monitor_iteration pf pint fs file_sizes = (outs, Inr s') \<and>
           tracked s' a' b' c' \<and> a \<le> a' \<and> b \<le> b' \<and> c \<le> c'"
proof -
  let ?s = "file_sizes
     (''last_fcd_size'' \<mapsto> new_size fs ''fcd.xml'' a,
      ''last_trip_size'' \<mapsto> new_size fs ''tripinfo.xml'' b,
      ''last_charging_size'' \<mapsto> new_size fs ''chargingstations.xml'' c)"
  have "tracked ?s (new_size fs ''fcd.xml'' a) (new_size fs ''tripinfo.xml'' b)
          (new_size fs ''chargingstations.xml'' c)"
    by (simp add: tracked_def)
  with monitor_iteration_eq[OF assms, of pf pint fs] new_size_ge show ?thesis
    by blast
qed

lemma monitor_loop_tracked:
  assumes "tracked file_sizes a b c"
  shows "\<exists>outs s' a' b' c'. monitor_loop pf pint passes file_sizes = (outs, Inr s') \<and>
           tracked s' a' b' c' \<and> a \<le> a' \<and> b \<le> b' \<and> c \<le> c'"
  using assms
proof (induction passes arbitrary: file_sizes a b c)
  case Nil
  then show ?case by (auto simp: io_return_def)
next
  case (Cons fs later)
  from monitor_iteration_tracked[OF Cons.prems, of pf pint fs] obtain o1 s1 a1 b1 c1 where
    it: "monitor_iteration pf pint fs file_sizes = (o1, Inr s1)" and
    t1: "tracked s1 a1 b1 c1" and le1: "a \<le> a1" "b \<le> b1" "c \<le> c1"
    by blast
  from Cons.IH[OF t1] obtain o2 s2 a2 b2 c2 where
    lp: "monitor_loop pf pint later s1 = (o2, Inr s2)" and
    t2: "tracked s2 a2 b2 c2" and le2: "a1 \<le> a2" "b1 \<le> b2" "c1 \<le> c2"
    by blast
  have "monitor_loop pf pint (fs # later) file_sizes = (o1 @ o2, Inr s2)"
    using it lp by (simp add: io_bind_def)
  moreover have "a \<le> a2" "b \<le> b2" "c \<le> c2"
    using le1 le2 by simp_all
  ultimately show ?case using t2 by blast
qed

lemma monitor_loop_append:
  "monitor_loop pf pint (passes @ further) file_sizes =
     io_bind (monitor_loop pf pint passes file_sizes) (monitor_loop pf pint further)"
proof (induction passes arbitrary: file_sizes)
  case Nil
  then show ?case by (simp add: io_bind_def io_return_def split: prod.splits)
next
  case (Cons fs later)
  then show ?case
    by (simp add: io_bind_def split: prod.splits sum.splits)
qed

lemma initial_tracked: "tracked initial_file_sizes 0 0 0"
  by (simp add: tracked_def initial_file_sizes_def files_to_monitor_def)

text \<open>
  C3. In a pass of the polling loop, with the three size keys recorded, each monitored
  file is checked in turn: when it exists and its size exceeds the recorded size, the
  update line is printed, its reader is run, and the recorded size becomes the current
  size; otherwise nothing is printed and the recorded size stays. The pass ends with a
  sleep of one second, and the three keys are still recorded.
\<close>

theorem polling_rereads_grown_files:
  assumes "tracked file_sizes a b c"
  shows "monitor_iteration pf pint fs file_sizes =
           (reread_output pf pint fs ''fcd.xml'' a @
            reread_output pf pint fs ''tripinfo.xml'' b @
            reread_output pf pint fs ''chargingstations.xml'' c @ [Sleep 1],
            Inr (file_sizes
              (''last_fcd_size'' \<mapsto> new_size fs ''fcd.xml'' a,
               ''last_trip_size'' \<mapsto> new_size fs ''tripinfo.xml'' b,
               ''last_charging_size'' \<mapsto> new_size fs ''chargingstations.xml'' c))) \<and>
         tracked (file_sizes
              (''last_fcd_size'' \<mapsto> new_size fs ''fcd.xml'' a,
               ''last_trip_size'' \<mapsto> new_size fs ''tripinfo.xml'' b,
               ''last_charging_size'' \<mapsto> new_size fs ''chargingstations.xml'' c))
           (new_size fs ''fcd.xml'' a) (new_size fs ''tripinfo.xml'' b)
           (new_size fs ''chargingstations.xml'' c) \<and>
         reread pf pint fs ''fcd.xml'' = read_fcd_data pf fs ''fcd.xml'' \<and>
         reread pf pint fs ''tripinfo.xml'' = read_tripinfo_data pf fs ''tripinfo.xml'' \<and>
         reread pf pint fs ''chargingstations.xml'' =
           read_charging_stations_data pf pint fs ''chargingstations.xml'' \<and>
         snd (reread pf pint fs ''fcd.xml'') = Inr () \<and>
         snd (reread pf pint fs ''tripinfo.xml'') = Inr () \<and>
         snd (reread pf pint fs ''chargingstations.xml'') = Inr ()"
proof -
  have r: "snd (reread pf pint fs filename) = Inr ()" for filename
    using reread_returns[of pf pint fs filename] by auto
  have e: "reread pf pint fs ''fcd.xml'' = read_fcd_data pf fs ''fcd.xml''"
    "reread pf pint fs ''tripinfo.xml'' = read_tripinfo_data pf fs ''tripinfo.xml''"
    "reread pf pint fs ''chargingstations.xml'' =
       read_charging_stations_data pf pint fs ''chargingstations.xml''"
    by (simp_all add: reread_def)
  have t: "tracked (file_sizes
              (''last_fcd_size'' \<mapsto> new_size fs ''fcd.xml'' a,
               ''last_trip_size'' \<mapsto> new_size fs ''tripinfo.xml'' b,
               ''last_charging_size'' \<mapsto> new_size fs ''chargingstations.xml'' c))
           (new_size fs ''fcd.xml'' a) (new_size fs ''tripinfo.xml'' b)
           (new_size fs ''chargingstations.xml'' c)"
    by (simp add: tracked_def)
  show ?thesis
    by (intro conjI) (rule monitor_iteration_eq[OF assms] t e r)+
qed

theorem polling_rereads_grown_files_witness:
  "tracked initial_file_sizes 0 0 0 \<and>
   grown live_fs ''fcd.xml'' 0 \<and>
   \<not> grown live_fs ''tripinfo.xml'' 0 \<and>
   \<not> grown live_fs ''chargingstations.xml'' 0 \<and>
   fst (monitor_iteration decimal_float decimal_int live_fs initial_file_sizes) =
     [Line ''Updated: {filename}'' [S ''fcd.xml''],
      Line ''Error reading FCD data: {e}'' [E ParseError],
      Sleep 1] \<and>
   tracked
     (initial_file_sizes(''last_fcd_size'' \<mapsto> 10, ''last_trip_size'' \<mapsto> 0,
        ''last_charging_size'' \<mapsto> 0)) 10 0 0"
proof -
  have r: "reread_output decimal_float decimal_int live_fs ''fcd.xml'' 0 =
      [Line ''Updated: {filename}'' [S ''fcd.xml''],
       Line ''Error reading FCD data: {e}'' [E ParseError]]"
    "reread_output decimal_float decimal_int live_fs ''tripinfo.xml'' 0 = []"
    "reread_output decimal_float decimal_int live_fs ''chargingstations.xml'' 0 = []"
    by (simp_all add: reread_output_def grown_def live_fs_def reread_def read_fcd_data_def
        exists_def read_fcd_body_def ET_parse_def io_try_def io_bind_def io_raise_def
        io_print_def)
  have n: "new_size live_fs ''fcd.xml'' 0 = 10" "new_size live_fs ''tripinfo.xml'' 0 = 0"
    "new_size live_fs ''chargingstations.xml'' 0 = 0"
    by (simp_all add: new_size_def live_fs_def)
  have g: "grown live_fs ''fcd.xml'' 0" "\<not> grown live_fs ''tripinfo.xml'' 0"
    "\<not> grown live_fs ''chargingstations.xml'' 0"
    by (simp_all add: grown_def live_fs_def)
  from polling_rereads_grown_files[OF initial_tracked, of decimal_float decimal_int live_fs]
    initial_tracked g
  show ?thesis by (simp add: r n)
qed

text \<open>
  C9. The recorded sizes start at 0, the polling loop never fails, and for each of the
  three files the size recorded after any number of passes is at most the size
  recorded after any further passes.
\<close>

theorem recorded_sizes_never_decrease:
  "\<exists>o1 s1 a1 b1 c1 o2 s2 a2 b2 c2.
     tracked initial_file_sizes 0 0 0 \<and>
     monitor_loop pf pint passes initial_file_sizes = (o1, Inr s1) \<and>
     tracked s1 a1 b1 c1 \<and>
     monitor_loop pf pint (passes @ further) initial_file_sizes = (o2, Inr s2) \<and>
     tracked s2 a2 b2 c2 \<and>
     a1 \<le> a2 \<and> b1 \<le> b2 \<and> c1 \<le> c2"
proof -
  from monitor_loop_tracked[OF initial_tracked, of pf pint passes]
  obtain o1 s1 a1 b1 c1 where
    l1: "monitor_loop pf pint passes initial_file_sizes = (o1, Inr s1)" and
    t1: "tracked s1 a1 b1 c1"
    by blast
  from monitor_loop_tracked[OF t1, of pf pint further]
  obtain o3 s2 a2 b2 c2 where
    l2: "monitor_loop pf pint further s1 = (o3, Inr s2)" and
    t2: "tracked s2 a2 b2 c2" and le: "a1 \<le> a2" "b1 \<le> b2" "c1 \<le> c2"
    by blast
  have "monitor_loop pf pint (passes @ further) initial_file_sizes = (o1 @ o3, Inr s2)"
    using l1 l2 by (simp add: monitor_loop_append io_bind_def)
  with initial_tracked l1 t1 t2 le show ?thesis by blast
qed

theorem recorded_sizes_never_decrease_witness:
  "\<exists>o1 s1 a1 b1 c1 o2 s2 a2 b2 c2.
     monitor_loop decimal_float decimal_int [live_fs] initial_file_sizes = (o1, Inr s1) \<and>
     tracked s1 a1 b1 c1 \<and>
     monitor_loop decimal_float decimal_int [live_fs, later_fs] initial_file_sizes =
       (o2, Inr s2) \<and>
     tracked s2 a2 b2 c2 \<and>
     a1 \<le> a2 \<and> b1 \<le> b2 \<and> c1 \<le> c2"
  using recorded_sizes_never_decrease[of decimal_float decimal_int "[live_fs]" "[later_fs]"]
  by simp

subsection \<open>The command lines\<close>

lemma read_all_files_eq:
  "read_all_files pf pint fs =
     ([Line ''SUMO SIMULATION DATA ANALYSIS'' [], Line (replicate 80 CHR ''='') []] @
      fst (read_fcd_data pf fs ''fcd.xml'') @
      fst (read_tripinfo_data pf fs ''tripinfo.xml'') @
      fst (read_charging_stations_data pf pint fs ''chargingstations.xml'') @
      [Line (replicate 80 CHR ''='') [], Line ''DATA ANALYSIS COMPLETE'' [],
       Line (replicate 80 CHR ''='') []], Inr ())"
proof -
  obtain o1 where o1: "read_fcd_data pf fs ''fcd.xml'' = (o1, Inr ())"
    using read_fcd_data_returns by blast
  obtain o2 where o2: "read_tripinfo_data pf fs ''tripinfo.xml'' = (o2, Inr ())"
    using read_tripinfo_data_returns by blast
  obtain o3 where
    o3: "read_charging_stations_data pf pint fs ''chargingstations.xml'' = (o3, Inr ())"
    using read_charging_stations_data_returns by blast
  show ?thesis
    by (simp add: read_all_files_def o1 o2 o3 io_then_def io_bind_def io_print_def hrule_def)
qed

lemma network_analyzer_main_starts:
  "\<exists>more_out. fst (network_analyzer_main pf fs argv) =
     Line ''Analyzing network file: {net_file}'' [S (network_analyzer_file argv)] #
     fst (analyze_network pf fs (network_analyzer_file argv)) @ more_out"
proof -
  obtain o1 r where "analyze_network pf fs (network_analyzer_file argv) = (o1, Inr r)"
    using analyze_network_returns by blast
  then show ?thesis
    by (simp add: network_analyzer_main_def Let_def io_then_def io_bind_def io_print_def
        split: prod.splits)
qed

lemma monitor_loop_output:
  assumes "tracked file_sizes a b c"
  shows "\<exists>s'. monitor_loop pf pint passes file_sizes =
           (polling_output pf pint passes a b c, Inr s')"
  using assms
proof (induction passes arbitrary: file_sizes a b c)
  case Nil
  then show ?case by (simp add: io_return_def)
next
  case (Cons fs later)
  let ?s = "file_sizes
     (''last_fcd_size'' \<mapsto> new_size fs ''fcd.xml'' a,
      ''last_trip_size'' \<mapsto> new_size fs ''tripinfo.xml'' b,
      ''last_charging_size'' \<mapsto> new_size fs ''chargingstations.xml'' c)"
  have t: "tracked ?s (new_size fs ''fcd.xml'' a) (new_size fs ''tripinfo.xml'' b)
          (new_size fs ''chargingstations.xml'' c)"
    by (simp add: tracked_def)
  from Cons.IH[OF t] obtain s' where
    l: "monitor_loop pf pint later ?s =
          (polling_output pf pint later (new_size fs ''fcd.xml'' a)
             (new_size fs ''tripinfo.xml'' b) (new_size fs ''chargingstations.xml'' c),
           Inr s')"
    by blast
  have "monitor_loop pf pint (fs # later) file_sizes =
          (polling_output pf pint (fs # later) a b c, Inr s')"
    using monitor_iteration_eq[OF Cons.prems, of pf pint fs] l
    by (simp add: io_bind_def)
  then show ?case by blast
qed

lemma live_monitor_output:
  "vehicle_monitor_main pf pint fs passes (prog # ''--live'' # others) =
     ([Line ''SUMO Vehicle Data Monitor Started'' [],
       Line ''Monitoring files in current directory...'' [],
       Line ''Press Ctrl+C to stop monitoring'' []] @
      polling_output pf pint passes 0 0 0 @
      [Line ''Monitoring stopped by user'' []], Inr ())"
proof -
  from monitor_loop_output[OF initial_tracked, of pf pint passes] obtain s' where
    "monitor_loop pf pint passes initial_file_sizes =
       (polling_output pf pint passes 0 0 0, Inr s')"
    by blast
  then show ?thesis
    by (simp add: vehicle_monitor_main_def monitor_simulation_live_def io_then_def
        io_bind_def io_print_def io_return_def)
qed

text \<open>
  C5. \<open>vehicle_monitor\<close> without an argument reads the three default files once, in
  the order FCD, trip info, charging stations, between its heading and its closing
  lines. With first argument \<open>--live\<close> it prints the three lines of the monitor's
  heading, then for every pass until the interrupt the output of the three file checks
  and a sleep of one second, then the line that monitoring was stopped. With \<open>--help\<close>
  it prints the five lines of the usage text. With any other first argument it prints
  the unknown-option line and nothing else. \<open>network_analyzer\<close> announces and analyses
  the file named by its first argument, or \<open>Test1.net.xml\<close> without one.
\<close>

theorem cli_dispatch:
  "(length argv \<le> 1 \<longrightarrow>
      vehicle_monitor_main pf pint fs passes argv = read_all_files pf pint fs) \<and>
   read_all_files pf pint fs =
     ([Line ''SUMO SIMULATION DATA ANALYSIS'' [], Line (replicate 80 CHR ''='') []] @
      fst (read_fcd_data pf fs ''fcd.xml'') @
      fst (read_tripinfo_data pf fs ''tripinfo.xml'') @
      fst (read_charging_stations_data pf pint fs ''chargingstations.xml'') @
      [Line (replicate 80 CHR ''='') [], Line ''DATA ANALYSIS COMPLETE'' [],
       Line (replicate 80 CHR ''='') []], Inr ()) \<and>
   vehicle_monitor_main pf pint fs passes (prog # ''--live'' # others) =
     ([Line ''SUMO Vehicle Data Monitor Started'' [],
       Line ''Monitoring files in current directory...'' [],
       Line ''Press Ctrl+C to stop monitoring'' []] @
      polling_output pf pint passes 0 0 0 @
      [Line ''Monitoring stopped by user'' []], Inr ()) \<and>
   vehicle_monitor_main pf pint fs passes (prog # ''--live'' # others) =
     io_then (monitor_simulation_live pf pint passes) (io_return ()) \<and>
   vehicle_monitor_main pf pint fs passes (prog # ''--help'' # others) =
     ([Line ''SUMO Vehicle Data Reader'' [],
       Line ''Usage:'' [],
       Line ''  python vehicle_monitor.py          # Read all files once'' [],
       Line ''  python vehicle_monitor.py --live   # Monitor files in real-time'' [],
       Line ''  python vehicle_monitor.py --help   # Show this help'' []], Inr ()) \<and>
   (arg \<noteq> ''--live'' \<and> arg \<noteq> ''--help'' \<longrightarrow>
      vehicle_monitor_main pf pint fs passes (prog # arg # others) =
        ([Line ''Unknown option. Use --help for usage information.'' []], Inr ())) \<and>
   (length argv \<le> 1 \<longrightarrow> network_analyzer_file argv = ''Test1.net.xml'') \<and>
   network_analyzer_file (prog # arg # others) = arg \<and>
   (\<exists>more_out. fst (network_analyzer_main pf fs argv) =
      Line ''Analyzing network file: {net_file}'' [S (network_analyzer_file argv)] #
      fst (analyze_network pf fs (network_analyzer_file argv)) @ more_out)"
proof -
  have a: "length argv \<le> 1 \<longrightarrow>
      vehicle_monitor_main pf pint fs passes argv = read_all_files pf pint fs"
    by (simp add: vehicle_monitor_main_def)
  have b: "vehicle_monitor_main pf pint fs passes (prog # ''--live'' # others) =
     io_then (monitor_simulation_live pf pint passes) (io_return ())"
    by (simp add: vehicle_monitor_main_def)
  have c: "vehicle_monitor_main pf pint fs passes (prog # ''--help'' # others) =
     ([Line ''SUMO Vehicle Data Reader'' [],
       Line ''Usage:'' [],
       Line ''  python vehicle_monitor.py          # Read all files once'' [],
       Line ''  python vehicle_monitor.py --live   # Monitor files in real-time'' [],
       Line ''  python vehicle_monitor.py --help   # Show this help'' []], Inr ())"
    by (simp add: vehicle_monitor_main_def print_usage_def io_then_def io_bind_def
        io_print_def)
  have d: "arg \<noteq> ''--live'' \<and> arg \<noteq> ''--help'' \<longrightarrow>
      vehicle_monitor_main pf pint fs passes (prog # arg # others) =
        ([Line ''Unknown option. Use --help for usage information.'' []], Inr ())"
    by (simp add: vehicle_monitor_main_def io_print_def)
  have e: "length argv \<le> 1 \<longrightarrow> network_analyzer_file argv = ''Test1.net.xml''"
    by (simp add: network_analyzer_file_def)
  have f: "network_analyzer_file (prog # arg # others) = arg"
    by (simp add: network_analyzer_file_def)
  show ?thesis
    by (intro conjI)
      (rule a b c d e f read_all_files_eq network_analyzer_main_starts
        live_monitor_output)+
qed

theorem cli_dispatch_witness:
  "length [''vehicle_monitor.py''] \<le> 1 \<and>
   vehicle_monitor_main decimal_float decimal_int demo_fs [live_fs] [''vehicle_monitor.py''] =
     ([Line ''SUMO SIMULATION DATA ANALYSIS'' [], Line (replicate 80 CHR ''='') [],
       Line ''FCD file not found: {file_path}'' [S ''fcd.xml''],
       Line ''Trip info file not found: {file_path}'' [S ''tripinfo.xml''],
       Line ''Charging stations file not found: {file_path}'' [S ''chargingstations.xml''],
       Line (replicate 80 CHR ''='') [], Line ''DATA ANALYSIS COMPLETE'' [],
       Line (replicate 80 CHR ''='') []], Inr ()) \<and>
   vehicle_monitor_main decimal_float decimal_int demo_fs [live_fs]
       [''vehicle_monitor.py'', ''--live''] =
     ([Line ''SUMO Vehicle Data Monitor Started'' [],
       Line ''Monitoring files in current directory...'' [],
       Line ''Press Ctrl+C to stop monitoring'' [],
       Line ''Updated: {filename}'' [S ''fcd.xml''],
       Line ''Error reading FCD data: {e}'' [E ParseError],
       Sleep 1,
       Line ''Monitoring stopped by user'' []], Inr ()) \<and>
   vehicle_monitor_main decimal_float decimal_int demo_fs [live_fs]
       [''vehicle_monitor.py'', ''--help''] =
     ([Line ''SUMO Vehicle Data Reader'' [],
       Line ''Usage:'' [],
       Line ''  python vehicle_monitor.py          # Read all files once'' [],
       Line ''  python vehicle_monitor.py --live   # Monitor files in real-time'' [],
       Line ''  python vehicle_monitor.py --help   # Show this help'' []], Inr ()) \<and>
   ''--fast'' \<noteq> ''--live'' \<and> ''--fast'' \<noteq> ''--help'' \<and>
   vehicle_monitor_main decimal_float decimal_int demo_fs [live_fs]
       [''vehicle_monitor.py'', ''--fast'', ''--live''] =
     ([Line ''Unknown option. Use --help for usage information.'' []], Inr ()) \<and>
   network_analyzer_file [''network_analyzer.py''] = ''Test1.net.xml'' \<and>
   network_analyzer_file [''network_analyzer.py'', ''--fast'', ''--live''] = ''--fast''"
proof -
  have r: "reread_output decimal_float decimal_int live_fs ''fcd.xml'' 0 =
      [Line ''Updated: {filename}'' [S ''fcd.xml''],
       Line ''Error reading FCD data: {e}'' [E ParseError]]"
    "reread_output decimal_float decimal_int live_fs ''tripinfo.xml'' 0 = []"
    "reread_output decimal_float decimal_int live_fs ''chargingstations.xml'' 0 = []"
    by (simp_all add: reread_output_def grown_def live_fs_def reread_def read_fcd_data_def
        exists_def read_fcd_body_def ET_parse_def io_try_def io_bind_def io_raise_def
        io_print_def)
  have m: "fst (read_fcd_data decimal_float demo_fs ''fcd.xml'') =
      [Line ''FCD file not found: {file_path}'' [S ''fcd.xml'']]"
    "fst (read_tripinfo_data decimal_float demo_fs ''tripinfo.xml'') =
      [Line ''Trip info file not found: {file_path}'' [S ''tripinfo.xml'']]"
    "fst (read_charging_stations_data decimal_float decimal_int demo_fs
       ''chargingstations.xml'') =
      [Line ''Charging stations file not found: {file_path}'' [S ''chargingstations.xml'']]"
    by (simp_all add: read_fcd_data_def read_tripinfo_data_def
        read_charging_stations_data_def exists_def demo_fs_def io_print_def)
  from cli_dispatch[of "[''vehicle_monitor.py'']" decimal_float decimal_int demo_fs
      "[live_fs]" "''vehicle_monitor.py''" "[]" "''--fast''"]
    cli_dispatch[of "[''vehicle_monitor.py'']" decimal_float decimal_int demo_fs
      "[live_fs]" "''vehicle_monitor.py''" "[''--live'']" "''--fast''"]
    cli_dispatch[of "[''network_analyzer.py'']" decimal_float decimal_int demo_fs
      "[live_fs]" "''network_analyzer.py''" "[''--live'']" "''--fast''"]
  show ?thesis by (simp add: r m)
qed

subsection \<open>Collecting the data of a timestep\<close>

lemma battery_block_keeps:
  assumes "battery_block tr pf t v ty st = (b, st1)"
  shows "battery_data st1 = battery_data st \<and> realtime_data st1 = realtime_data st \<and>
         trip_data st1 = trip_data st \<and>
         (\<exists>nc. charging_events st1 = charging_events st @ nc)"
  using assms
  by (auto simp: battery_block_def Let_def split: sum.splits if_splits)

lemma battery_block_max:
  "max_battery (fst (battery_block tr pf t v ty st)) = parsed_max_battery tr pf v"
  by (auto simp: battery_block_def parsed_max_battery_def Let_def split: sum.splits)

lemma collect_vehicle_failed:
  assumes "basic_queries tr v = Inl e"
  shows "collect_vehicle_body tr pf t v st = (st, Some e)"
    and "collect_vehicle tr pf t v st = (warning e v, st)"
  using assms by (simp_all add: collect_vehicle_def collect_vehicle_body_def warning_def)

lemma collect_vehicle_body_raised:
  assumes "collect_vehicle_body tr pf t v st = (st', Some e)"
  shows "st' = st \<and> basic_queries tr v = Inl e"
  using assms
  by (auto simp: collect_vehicle_body_def add_battery_record_def soc_percent_of_def
      py_div_def Let_def split: sum.splits prod.splits if_splits option.splits)

lemma collect_vehicle_ok:
  assumes "basic_queries tr v = Inr q"
  shows "\<exists>st'. collect_vehicle tr pf t v st = ([], st') \<and>
           realtime_data st' = realtime_data st @ [realtime_row t v q] \<and>
           (if parsed_max_battery tr pf v > 0
            then \<exists>r. battery_data st' = battery_data st @ [r] \<and>
                   maximumBatteryCapacity_Wh r = parsed_max_battery tr pf v \<and>
                   vehicle_id r = v \<and> timestep_sec r = t
            else battery_data st' = battery_data st) \<and>
           (\<exists>nc. charging_events st' = charging_events st @ nc)"
proof -
  obtain b st1 where bb: "battery_block tr pf t v (vtype q) st = (b, st1)"
    by (cases "battery_block tr pf t v (vtype q) st")
  from battery_block_keeps[OF bb] obtain nc where
    k: "battery_data st1 = battery_data st" "realtime_data st1 = realtime_data st"
       "charging_events st1 = charging_events st @ nc"
    by blast
  have m: "max_battery b = parsed_max_battery tr pf v"
    using battery_block_max[of tr pf t v "vtype q" st] bb by simp
  show ?thesis
  proof (cases "parsed_max_battery tr pf v > 0")
    case True
    with assms bb k m show ?thesis
      by (simp add: collect_vehicle_def collect_vehicle_body_def add_battery_record_def
          soc_percent_of_def py_div_def track_trip_def Let_def)
  next
    case False
    with assms bb k m show ?thesis
      by (simp add: collect_vehicle_def collect_vehicle_body_def add_battery_record_def
          track_trip_def Let_def)
  qed
qed

lemma grows_refl: "grows st st"
  by (simp add: grows_def)

lemma grows_trans:
  assumes "grows s1 s2" and "grows s2 s3"
  shows "grows s1 s3"
proof -
  from assms(1) obtain nb nr nc where
    a: "battery_data s2 = battery_data s1 @ nb" "realtime_data s2 = realtime_data s1 @ nr"
       "charging_events s2 = charging_events s1 @ nc" "length nb \<le> length nr"
       "\<forall>r\<in>set nb. maximumBatteryCapacity_Wh r > 0"
    unfolding grows_def by blast
  from assms(2) obtain mb mr mc where
    b: "battery_data s3 = battery_data s2 @ mb" "realtime_data s3 = realtime_data s2 @ mr"
       "charging_events s3 = charging_events s2 @ mc" "length mb \<le> length mr"
       "\<forall>r\<in>set mb. maximumBatteryCapacity_Wh r > 0"
    unfolding grows_def by blast
  show ?thesis
    unfolding grows_def
  proof (intro exI conjI)
    show "battery_data s3 = battery_data s1 @ (nb @ mb)" using a b by simp
    show "realtime_data s3 = realtime_data s1 @ (nr @ mr)" using a b by simp
    show "charging_events s3 = charging_events s1 @ (nc @ mc)" using a b by simp
    show "length (nb @ mb) \<le> length (nr @ mr)" using a b by simp
    show "\<forall>r\<in>set (nb @ mb). maximumBatteryCapacity_Wh r > 0" using a b by auto
  qed
qed

lemma collect_vehicle_grows:
  assumes "collect_vehicle tr pf t v st = (outs, st')"
  shows "grows st st'"
proof (cases "basic_queries tr v")
  case (Inl e)
  with assms collect_vehicle_failed(2)[OF Inl, of pf t st] show ?thesis
    by (simp add: grows_refl)
next
  case (Inr q)
  from collect_vehicle_ok[OF Inr, of pf t st] assms obtain nc where
    r: "realtime_data st' = realtime_data st @ [realtime_row t v q]" and
    b: "if parsed_max_battery tr pf v > 0
        then \<exists>r. battery_data st' = battery_data st @ [r] \<and>
               maximumBatteryCapacity_Wh r = parsed_max_battery tr pf v \<and>
               vehicle_id r = v \<and> timestep_sec r = t
        else battery_data st' = battery_data st" and
    c: "charging_events st' = charging_events st @ nc"
    by auto
  show ?thesis
  proof (cases "parsed_max_battery tr pf v > 0")
    case True
    with b obtain row where "battery_data st' = battery_data st @ [row]"
      "maximumBatteryCapacity_Wh row > 0"
      by auto
    with r c show ?thesis
      unfolding grows_def
      by (intro exI[of _ "[row]"] exI[of _ "[realtime_row t v q]"] exI[of _ nc]) simp
  next
    case False
    with b have "battery_data st' = battery_data st" by simp
    with r c show ?thesis
      unfolding grows_def
      by (intro exI[of _ "[]"] exI[of _ "[realtime_row t v q]"] exI[of _ nc]) simp
  qed
qed

lemma collect_vehicles_grows:
  assumes "collect_vehicles tr pf t ids st = (outs, st')"
  shows "grows st st'"
  using assms
proof (induction ids arbitrary: st outs st')
  case Nil
  then show ?case by (simp add: grows_refl)
next
  case (Cons v ids)
  obtain o1 st1 where a: "collect_vehicle tr pf t v st = (o1, st1)"
    by (cases "collect_vehicle tr pf t v st")
  obtain o2 st2 where b: "collect_vehicles tr pf t ids st1 = (o2, st2)"
    by (cases "collect_vehicles tr pf t ids st1")
  from Cons.prems a b have "st' = st2" by simp
  with collect_vehicle_grows[OF a] Cons.IH[OF b] show ?case
    by (blast intro: grows_trans)
qed

lemma collect_vehicles_append:
  "collect_vehicles tr pf t (xs @ ys) st =
     (case collect_vehicles tr pf t xs st of (o1, st1) \<Rightarrow>
      case collect_vehicles tr pf t ys st1 of (o2, st2) \<Rightarrow> (o1 @ o2, st2))"
  by (induction xs arbitrary: st) (simp_all split: prod.splits)

lemma collect_data_grows:
  assumes "collect_data tr pf t st = (outs, st', x)"
  shows "grows st st'"
  using assms
  by (auto simp: collect_data_def grows_refl split: sum.splits prod.splits
      dest: collect_vehicles_grows)

lemma simulation_loop_grows:
  assumes "simulation_loop pf interval cur later t0 nct st = (outs, st', r)"
  shows "grows st st'"
  using assms
proof (induction later arbitrary: cur t0 nct st outs st' r)
  case Nil
  then show ?case by (auto simp: grows_refl split: sum.splits if_splits)
next
  case (Cons nxt later)
  show ?case
  proof (cases "getMinExpectedNumber cur")
    case (Inl e)
    with Cons.prems show ?thesis by (simp add: grows_refl)
  next
    case (Inr n)
    show ?thesis
    proof (cases "n > 0")
      case False
      with Inr Cons.prems show ?thesis by (simp add: grows_refl)
    next
      case True
      show ?thesis
      proof (cases "getTime nxt")
        case (Inl e)
        with Inr True Cons.prems show ?thesis by (simp add: grows_refl)
      next
        case tm: (Inr t)
        obtain o1 st1 x nct' where c:
          "(if t \<ge> nct
            then (case collect_data nxt pf t st of
                    (o1, st1, x) \<Rightarrow> (o1, st1, x, nct + interval))
            else ([], st, None, nct)) = (o1, st1, x, nct')"
          by (metis prod_cases4)
        have g1: "grows st st1"
          using c by (auto simp: grows_refl split: if_splits prod.splits
              dest: collect_data_grows)
        show ?thesis
        proof (cases x)
          case (Some e)
          with Inr True tm c Cons.prems have "st' = st1" by simp
          with g1 show ?thesis by simp
        next
          case None
          obtain o2 y where p: "progress nxt t = (o2, y)" by (cases "progress nxt t")
          show ?thesis
          proof (cases y)
            case (Some e)
            with Inr True tm c None p Cons.prems have "st' = st1" by simp
            with g1 show ?thesis by simp
          next
            case none2: None
            obtain o3 st3 r3 where
              l: "simulation_loop pf interval nxt later t nct' st1 = (o3, st3, r3)"
              by (metis prod_cases3)
            with Inr True tm c None p none2 Cons.prems have "st' = st3" by simp
            with g1 Cons.IH[OF l] show ?thesis by (blast intro: grows_trans)
          qed
        qed
      qed
    qed
  qed
qed

lemma run_simulation_grows:
  assumes "run_simulation pf gui step_length session st = (outs, st', ok)"
  shows "grows st st'"
  using assms
  by (auto simp: run_simulation_def Let_def grows_refl
      split: sum.splits prod.splits dest: simulation_loop_grows)

lemmas collect_defs =
  collect_vehicles.simps collect_vehicle_def collect_vehicle_body_def basic_queries_def
  battery_block_def float_parameter_def soc_percent_of_def py_div_def
  add_battery_record_def realtime_row_def track_trip_def collect_data_def warning_def
  parsed_max_battery_def demo_traci_def demo_parameter_def demo_exporter_def
  new_exporter_def decimal_float_def digit_of_def Let_def

text \<open>
  C7. An exception in the \<open>try\<close> block of one vehicle can only come from one of its
  six basic queries, and the state is then as it was before that vehicle. The handler
  prints nothing for a TraCI exception and a warning for any other, and the loop goes
  on: collecting over a list with the failing vehicle in it gives what collecting over
  the vehicles before it and then over those after it gives, with the warning in
  between. The collection as a whole does not fail once the id list is there, and
  every container holds afterwards what it held before, followed by the new rows.
\<close>

theorem vehicle_errors_are_skipped:
  "(\<forall>st' e. collect_vehicle_body tr pf t v st = (st', Some e) \<longrightarrow>
      st' = st \<and> basic_queries tr v = Inl e) \<and>
   (\<forall>e. basic_queries tr v = Inl e \<longrightarrow>
      collect_vehicle tr pf t v st = (warning e v, st) \<and>
      collect_vehicles tr pf t (earlier @ v # others) st =
        (case collect_vehicles tr pf t earlier st of (o1, st1) \<Rightarrow>
         case collect_vehicles tr pf t others st1 of (o2, st2) \<Rightarrow>
         (o1 @ warning e v @ o2, st2))) \<and>
   (\<forall>ids. getIDList tr = Inr ids \<longrightarrow>
      (\<exists>outs st'. collect_data tr pf t st = (outs, st', None) \<and>
         collect_vehicles tr pf t ids st = (outs, st'))) \<and>
   (\<forall>ids outs st'. collect_vehicles tr pf t ids st = (outs, st') \<longrightarrow>
      (\<exists>nb nr nc. battery_data st' = battery_data st @ nb \<and>
         realtime_data st' = realtime_data st @ nr \<and>
         charging_events st' = charging_events st @ nc))"
proof -
  have a: "\<forall>st' e. collect_vehicle_body tr pf t v st = (st', Some e) \<longrightarrow>
      st' = st \<and> basic_queries tr v = Inl e"
    using collect_vehicle_body_raised by blast
  have b: "\<forall>e. basic_queries tr v = Inl e \<longrightarrow>
      collect_vehicle tr pf t v st = (warning e v, st) \<and>
      collect_vehicles tr pf t (earlier @ v # others) st =
        (case collect_vehicles tr pf t earlier st of (o1, st1) \<Rightarrow>
         case collect_vehicles tr pf t others st1 of (o2, st2) \<Rightarrow>
         (o1 @ warning e v @ o2, st2))"
  proof (intro allI impI conjI)
    fix e assume f: "basic_queries tr v = Inl e"
    show "collect_vehicle tr pf t v st = (warning e v, st)"
      by (rule collect_vehicle_failed(2)[OF f])
    show "collect_vehicles tr pf t (earlier @ v # others) st =
        (case collect_vehicles tr pf t earlier st of (o1, st1) \<Rightarrow>
         case collect_vehicles tr pf t others st1 of (o2, st2) \<Rightarrow>
         (o1 @ warning e v @ o2, st2))"
      by (simp add: collect_vehicles_append collect_vehicle_failed(2)[OF f]
          split: prod.splits)
  qed
  have c: "\<forall>ids. getIDList tr = Inr ids \<longrightarrow>
      (\<exists>outs st'. collect_data tr pf t st = (outs, st', None) \<and>
         collect_vehicles tr pf t ids st = (outs, st'))"
    by (auto simp: collect_data_def split: prod.splits)
  have d: "\<forall>ids outs st'. collect_vehicles tr pf t ids st = (outs, st') \<longrightarrow>
      (\<exists>nb nr nc. battery_data st' = battery_data st @ nb \<and>
         realtime_data st' = realtime_data st @ nr \<and>
         charging_events st' = charging_events st @ nc)"
  proof (intro allI impI)
    fix ids outs st' assume "collect_vehicles tr pf t ids st = (outs, st')"
    from collect_vehicles_grows[OF this] show
      "\<exists>nb nr nc. battery_data st' = battery_data st @ nb \<and>
         realtime_data st' = realtime_data st @ nr \<and>
         charging_events st' = charging_events st @ nc"
      unfolding grows_def by blast
  qed
  show ?thesis by (intro conjI) (rule a b c d)+
qed

theorem vehicle_errors_are_skipped_witness:
  "basic_queries demo_traci ''gone'' = Inl TraCIException \<and>
   collect_vehicle demo_traci decimal_float 1 ''gone'' demo_exporter = ([], demo_exporter) \<and>
   collect_vehicles demo_traci decimal_float 1 [''ev1'', ''gone'', ''bus3''] demo_exporter =
     collect_vehicles demo_traci decimal_float 1 [''ev1'', ''bus3''] demo_exporter \<and>
   map vehicle_id (realtime_data (snd
     (collect_vehicles demo_traci decimal_float 1 [''ev1'', ''gone'', ''bus3''] demo_exporter)))
     = [''ev1'', ''bus3''] \<and>
   basic_queries (demo_traci\<lparr>getLaneID := \<lambda>v. Inl OtherException\<rparr>) ''ev1'' =
     Inl OtherException \<and>
   collect_vehicle (demo_traci\<lparr>getLaneID := \<lambda>v. Inl OtherException\<rparr>) decimal_float 1
       ''ev1'' demo_exporter =
     ([Line ''Warning: Error collecting data for {veh_id}: {e}'' [S ''ev1'', E OtherException]],
      demo_exporter)"
proof -
  have a: "basic_queries demo_traci ''gone'' = Inl TraCIException"
    by (simp add: basic_queries_def demo_traci_def)
  have b: "basic_queries (demo_traci\<lparr>getLaneID := \<lambda>v. Inl OtherException\<rparr>) ''ev1'' =
     Inl OtherException"
    by (simp add: basic_queries_def demo_traci_def)
  have c: "map vehicle_id (realtime_data (snd
     (collect_vehicles demo_traci decimal_float 1 [''ev1'', ''bus3''] demo_exporter)))
     = [''ev1'', ''bus3'']"
    by (simp add: collect_defs)
  from a b c
    vehicle_errors_are_skipped[of demo_traci decimal_float 1 "''gone''" demo_exporter
      "[''ev1'']" "[''bus3'']"]
    vehicle_errors_are_skipped[of "demo_traci\<lparr>getLaneID := \<lambda>v. Inl OtherException\<rparr>"
      decimal_float 1 "''ev1''" demo_exporter "[]" "[]"]
  show ?thesis by (simp add: warning_def split: prod.splits)
qed

text \<open>
  C10. For a vehicle whose basic queries succeed, one real-time row is appended
  whatever its battery, and one battery row is appended exactly when the maximum
  capacity read for it is positive; that row carries this capacity. So whatever a
  collection appends has at most as many battery rows as real-time rows, all with a
  positive maximum capacity, and after a whole run from a fresh exporter every battery
  row has a positive maximum capacity and there are at most as many battery rows as
  real-time rows.
\<close>

theorem battery_rows_have_positive_capacity:
  "(\<forall>q. basic_queries tr v = Inr q \<longrightarrow>
      (\<exists>st'. collect_vehicle tr pf t v st = ([], st') \<and>
         realtime_data st' = realtime_data st @ [realtime_row t v q] \<and>
         (if parsed_max_battery tr pf v > 0
          then \<exists>r. battery_data st' = battery_data st @ [r] \<and>
                 maximumBatteryCapacity_Wh r = parsed_max_battery tr pf v \<and>
                 vehicle_id r = v \<and> timestep_sec r = t
          else battery_data st' = battery_data st))) \<and>
   (\<forall>outs st' x. collect_data tr pf t st = (outs, st', x) \<longrightarrow>
      (\<exists>nb nr. battery_data st' = battery_data st @ nb \<and>
         realtime_data st' = realtime_data st @ nr \<and>
         length nb \<le> length nr \<and>
         (\<forall>r\<in>set nb. maximumBatteryCapacity_Wh r > 0))) \<and>
   (\<forall>outs st' ok.
      run_simulation pf gui step_length session (new_exporter cfg folder) = (outs, st', ok) \<longrightarrow>
      (\<forall>r\<in>set (battery_data st'). maximumBatteryCapacity_Wh r > 0) \<and>
      length (battery_data st') \<le> length (realtime_data st'))"
proof -
  have a: "\<forall>q. basic_queries tr v = Inr q \<longrightarrow>
      (\<exists>st'. collect_vehicle tr pf t v st = ([], st') \<and>
         realtime_data st' = realtime_data st @ [realtime_row t v q] \<and>
         (if parsed_max_battery tr pf v > 0
          then \<exists>r. battery_data st' = battery_data st @ [r] \<and>
                 maximumBatteryCapacity_Wh r = parsed_max_battery tr pf v \<and>
                 vehicle_id r = v \<and> timestep_sec r = t
          else battery_data st' = battery_data st))"
  proof (intro allI impI)
    fix q assume q: "basic_queries tr v = Inr q"
    from collect_vehicle_ok[OF q, of pf t st] show
      "\<exists>st'. collect_vehicle tr pf t v st = ([], st') \<and>
         realtime_data st' = realtime_data st @ [realtime_row t v q] \<and>
         (if parsed_max_battery tr pf v > 0
          then \<exists>r. battery_data st' = battery_data st @ [r] \<and>
                 maximumBatteryCapacity_Wh r = parsed_max_battery tr pf v \<and>
                 vehicle_id r = v \<and> timestep_sec r = t
          else battery_data st' = battery_data st)"
      by blast
  qed
  have b: "\<forall>outs st' x. collect_data tr pf t st = (outs, st', x) \<longrightarrow>
      (\<exists>nb nr. battery_data st' = battery_data st @ nb \<and>
         realtime_data st' = realtime_data st @ nr \<and>
         length nb \<le> length nr \<and>
         (\<forall>r\<in>set nb. maximumBatteryCapacity_Wh r > 0))"
  proof (intro allI impI)
    fix outs st' x assume "collect_data tr pf t st = (outs, st', x)"
    from collect_data_grows[OF this] show
      "\<exists>nb nr. battery_data st' = battery_data st @ nb \<and>
         realtime_data st' = realtime_data st @ nr \<and>
         length nb \<le> length nr \<and>
         (\<forall>r\<in>set nb. maximumBatteryCapacity_Wh r > 0)"
      unfolding grows_def by blast
  qed
  have c: "\<forall>outs st' ok.
      run_simulation pf gui step_length session (new_exporter cfg folder) = (outs, st', ok) \<longrightarrow>
      (\<forall>r\<in>set (battery_data st'). maximumBatteryCapacity_Wh r > 0) \<and>
      length (battery_data st') \<le> length (realtime_data st')"
  proof (intro allI impI)
    fix outs st' ok
    assume "run_simulation pf gui step_length session (new_exporter cfg folder) =
      (outs, st', ok)"
    from run_simulation_grows[OF this] show
      "(\<forall>r\<in>set (battery_data st'). maximumBatteryCapacity_Wh r > 0) \<and>
       length (battery_data st') \<le> length (realtime_data st')"
      unfolding grows_def by (auto simp: new_exporter_def)
  qed
  show ?thesis by (intro conjI) (rule a b c)+
qed

theorem battery_rows_have_positive_capacity_witness:
  "parsed_max_battery demo_traci decimal_float ''ev1'' = 100 \<and>
   parsed_max_battery demo_traci decimal_float ''bus3'' = 0 \<and>
   map (\<lambda>r. (vehicle_id r, maximumBatteryCapacity_Wh r))
     (battery_data (fst (snd (collect_data demo_traci decimal_float 1 demo_exporter)))) =
     [(''ev1'', 100)] \<and>
   map vehicle_id
     (realtime_data (fst (snd (collect_data demo_traci decimal_float 1 demo_exporter)))) =
     [''ev1'', ''bus3''] \<and>
   snd (snd (run_simulation decimal_float False 1 demo_session demo_exporter)) = True \<and>
   map (\<lambda>r. (vehicle_id r, maximumBatteryCapacity_Wh r)) (battery_data
       (fst (snd (run_simulation decimal_float False 1 demo_session demo_exporter)))) =
     [(''ev1'', 100)]"
proof -
  have a: "parsed_max_battery demo_traci decimal_float ''ev1'' = 100"
    "parsed_max_battery demo_traci decimal_float ''bus3'' = 0"
    by (simp_all add: collect_defs)
  have b: "map (\<lambda>r. (vehicle_id r, maximumBatteryCapacity_Wh r))
     (battery_data (fst (snd (collect_data demo_traci decimal_float 1 demo_exporter)))) =
     [(''ev1'', 100)]"
    "map vehicle_id
     (realtime_data (fst (snd (collect_data demo_traci decimal_float 1 demo_exporter)))) =
     [''ev1'', ''bus3'']"
    by (simp_all add: collect_defs)
  have c: "snd (snd (run_simulation decimal_float False 1 demo_session demo_exporter)) = True"
    "map (\<lambda>r. (vehicle_id r, maximumBatteryCapacity_Wh r)) (battery_data
       (fst (snd (run_simulation decimal_float False 1 demo_session demo_exporter)))) =
     [(''ev1'', 100)]"
    by (simp_all add: run_simulation_def demo_session_def progress_def py_trunc_def
        collect_defs)
  obtain outs st' ok where
    r: "run_simulation decimal_float False 1 demo_session
          (new_exporter ''Test1.sumocfg'' ''simulation_outputs'') = (outs, st', ok)"
    by (metis prod_cases3)
  from battery_rows_have_positive_capacity[of demo_traci "''ev1''" decimal_float 1
      demo_exporter False 1 demo_session "''Test1.sumocfg''" "''simulation_outputs''"] r
  have "\<forall>r\<in>set (battery_data st'). maximumBatteryCapacity_Wh r > 0"
    by blast
  with r a b c show ?thesis by (simp add: demo_exporter_def)
qed

subsection \<open>Where the guarded ratios go\<close>

lemma io_lift_eq: "io_lift r = (outs, x) \<longleftrightarrow> outs = [] \<and> x = r"
  by (auto simp: io_lift_def)

lemma py_float_Inr_iff:
  "py_float pf v = (outs, Inr x) \<longleftrightarrow> outs = [] \<and> (\<exists>s. v = Some s \<and> pf s = Some x)"
  by (auto simp: py_float_def split: option.splits)

lemma py_float_default_Inr_iff:
  "py_float_default pf v d = (outs, Inr x) \<longleftrightarrow>
     outs = [] \<and> (case v of None \<Rightarrow> x = d | Some s \<Rightarrow> pf s = Some x)"
  by (auto simp: py_float_default_def split: option.splits)

lemma tripinfo_entry_Inr:
  assumes "tripinfo_entry pf el = (outs, Inr u)"
  shows "\<exists>vid vty depart arrival duration route_length max_speed.
           get_attr el ''id'' = Some vid \<and> get_attr el ''vType'' = Some vty \<and>
           py_float pf (get_attr el ''depart'') = ([], Inr depart) \<and>
           py_float pf (get_attr el ''arrival'') = ([], Inr arrival) \<and>
           py_float pf (get_attr el ''duration'') = ([], Inr duration) \<and>
           py_float pf (get_attr el ''routeLength'') = ([], Inr route_length) \<and>
           py_float pf (get_attr el ''maxSpeed'') = ([], Inr max_speed) \<and>
           outs =
             [Line ''{veh_id:8} [{veh_type:8}]'' [S vid, S vty],
              Line ''   Distance: {route_length:8.1f}m'' [F route_length],
              Line ''   Duration: {duration:8.1f}s'' [F duration],
              Line ''   Avg Speed: {avg_speed:6.1f}m/s''
                [F (if duration > 0 then route_length / duration else 0)],
              Line ''   Max Speed: {max_speed:6.1f}m/s'' [F max_speed],
              Line ''   Depart: {depart:6.1f}s - Arrive: {arrival:6.1f}s'' [F depart, F arrival],
              Line (replicate 50 CHR ''-'') []]"
  using assms
  by (auto simp: tripinfo_entry_def Let_def io_bind_Inr io_then_Inr io_lift_eq
      avg_speed_of_eq fmt_width_Inr py_float_Inr_iff)

lemma battery_vehicle_Inr:
  assumes "battery_vehicle pf el = (outs, Inr u)"
  shows "\<exists>vid ec bc mc.
           get_attr el ''id'' = Some vid \<and>
           py_float_default pf (get_attr el ''energyConsumed'') 0 = ([], Inr ec) \<and>
           py_float_default pf (get_attr el ''actualBatteryCapacity'') 0 = ([], Inr bc) \<and>
           py_float_default pf (get_attr el ''maximumBatteryCapacity'') 100000 = ([], Inr mc) \<and>
           outs =
             [Line ''{veh_id:8} Battery: {battery_percent:5.1f}% ({battery_capacity:8.0f}Wh) Energy Used: {energy_consumed:8.1f}Wh''
                [S vid, F (if mc > 0 then bc / mc * 100 else 0), F bc, F ec]]"
proof -
  have nil: "fst (py_float_default pf v d) = []" for v d
    by (simp add: py_float_default_def io_return_def io_raise_def split: option.splits)
  obtain r1 where
    e: "py_float_default pf (get_attr el ''energyConsumed'') 0 = ([], r1)"
    by (metis nil prod.collapse)
  obtain r2 where
    b: "py_float_default pf (get_attr el ''actualBatteryCapacity'') 0 = ([], r2)"
    by (metis nil prod.collapse)
  obtain r3 where
    m: "py_float_default pf (get_attr el ''maximumBatteryCapacity'') 100000 = ([], r3)"
    by (metis nil prod.collapse)
  from assms e b m show ?thesis
    by (cases r1; cases r2; cases r3; cases "get_attr el ''id''")
      (simp_all add: battery_vehicle_def Let_def io_bind_def io_lift_def
        battery_percent_of_eq fmt_width_def io_raise_def io_return_def io_print_def)
qed

lemma io_foreach_ok:
  assumes "\<forall>x\<in>set xs. snd (f x) = Inr ()"
  shows "io_foreach f xs = (concat (map (\<lambda>x. fst (f x)) xs), Inr ())"
proof -
  have "io_fold (\<lambda>x _. f x) xs () = (concat (map (\<lambda>x. fst (f x)) xs), Inr ())"
    using assms
  proof (induction xs)
    case Nil
    then show ?case by (simp add: io_return_def)
  next
    case (Cons x xs)
    then obtain o1 where fx: "f x = (o1, Inr ())"
      by (metis list.set_intros(1) prod.collapse)
    have "io_fold (\<lambda>x _. f x) xs () = (concat (map (\<lambda>x. fst (f x)) xs), Inr ())"
      using Cons by simp
    with fx show ?case
      by (simp add: io_bind_def)
  qed
  then show ?thesis by (simp add: io_foreach_def)
qed

lemma read_tripinfo_data_ok:
  assumes "fs p = Some (sz, Document troot)"
    and "\<forall>el\<in>set (findall troot ''tripinfo''). snd (tripinfo_entry pf el) = Inr ()"
  shows "read_tripinfo_data pf fs p =
           ([Line (replicate 80 CHR ''='') [],
             Line ''TRIP SUMMARY DATA (Distance, Duration, Speed)'' [],
             Line (replicate 80 CHR ''='') []] @
            concat (map (\<lambda>el. fst (tripinfo_entry pf el)) (findall troot ''tripinfo'')),
            Inr ())"
  using assms(1) io_foreach_ok[OF assms(2)]
  by (simp add: read_tripinfo_data_def read_tripinfo_body_def exists_def ET_parse_def
      io_try_def io_bind_def io_then_def io_return_def io_print_def hrule_def)

lemma battery_timestep_ok:
  assumes "py_float pf (get_attr ts ''time'') = ([], Inr step_time)"
    and "\<forall>v\<in>set (findall ts ''vehicle''). snd (battery_vehicle pf v) = Inr ()"
  shows "battery_timestep pf ts =
           (if findall ts ''vehicle'' = [] then []
            else [Line ''Time: {step_time:.1f}s'' [F step_time],
                  Line (replicate 60 CHR ''-'') []] @
                 concat (map (\<lambda>v. fst (battery_vehicle pf v)) (findall ts ''vehicle'')),
            Inr ())"
  using assms(1) io_foreach_ok[OF assms(2)]
  by (simp add: battery_timestep_def Let_def io_bind_def io_then_def io_return_def
      io_print_def hrule_def)

lemma read_battery_data_ok:
  assumes "fs p = Some (sz, Document troot)"
    and "\<forall>ts\<in>set (findall troot ''timestep''). snd (battery_timestep pf ts) = Inr ()"
  shows "read_battery_data pf fs p =
           ([Line (replicate 80 CHR ''='') [],
             Line ''BATTERY DATA (Charge Levels, Energy Consumption)'' [],
             Line (replicate 80 CHR ''='') []] @
            concat (map (\<lambda>ts. fst (battery_timestep pf ts)) (findall troot ''timestep'')),
            Inr ())"
  using assms(1) io_foreach_ok[OF assms(2)]
  by (simp add: read_battery_data_def read_battery_body_def exists_def ET_parse_def
      io_try_def io_bind_def io_then_def io_return_def io_print_def hrule_def)

lemma add_battery_record_eq:
  "add_battery_record t v q b st =
     (if max_battery b > 0
      then (st\<lparr>battery_data := battery_data st @
              [\<lparr>timestep_sec = t, vehicle_id = v, vehicle_type = vtype q,
                speed_ms = speed q, speed_kmh = speed q * 3.6,
                x_position_m = fst (position q), y_position_m = snd (position q),
                lane = lane_id q, distance_traveled_m = distance q,
                waiting_time_sec = waiting_time q,
                actualBatteryCapacity_Wh = battery_capacity b,
                maximumBatteryCapacity_Wh = max_battery b,
                battery_soc_percent = battery_capacity b / max_battery b * 100,
                totalEnergyConsumed_Wh = energy_consumed b,
                totalEnergyRegenerated_Wh = energy_regen b,
                netEnergyUsed_Wh = energy_consumed b - energy_regen b,
                chargingStationId = charging_station b\<rparr>]\<rparr>, None)
      else (st, None))"
  by (simp add: add_battery_record_def soc_percent_of_eq)

lemma battery_block_event:
  assumes "float_parameter tr pf v ''device.battery.actualBatteryCapacity'' = Inr bc"
    and "float_parameter tr pf v ''device.battery.maximumBatteryCapacity'' = Inr mb"
    and "float_parameter tr pf v ''device.battery.totalEnergyConsumed'' = Inr ec"
    and "float_parameter tr pf v ''device.battery.totalEnergyRegenerated'' = Inr er"
    and "getParameter tr v ''device.battery.chargingStationId'' = Inr sid"
    and "sid \<noteq> []" and "sid \<noteq> ''NULL''"
  shows "battery_block tr pf t v ty st =
           (\<lparr>battery_capacity = bc, max_battery = mb, energy_consumed = ec,
             energy_regen = er, charging_station = sid\<rparr>,
            st\<lparr>charging_events := charging_events st @
              [\<lparr>ce_timestep = t, ce_vehicle_id = v, ce_vehicle_type = ty,
                ce_charging_station = sid,
                ce_battery_soc_percent = (if mb > 0 then bc / mb * 100 else 0)\<rparr>]\<rparr>)"
  using assms by (simp add: battery_block_def soc_percent_of_eq Let_def)

lemma collect_vehicle_stores:
  assumes "basic_queries tr v = Inr q"
  shows "\<exists>st'. collect_vehicle tr pf t v st = ([], st') \<and>
           charging_events st' =
             charging_events (snd (battery_block tr pf t v (vtype q) st)) \<and>
           (if max_battery (fst (battery_block tr pf t v (vtype q) st)) > 0
            then \<exists>r. battery_data st' = battery_data st @ [r] \<and>
                   actualBatteryCapacity_Wh r =
                     battery_capacity (fst (battery_block tr pf t v (vtype q) st)) \<and>
                   maximumBatteryCapacity_Wh r =
                     max_battery (fst (battery_block tr pf t v (vtype q) st)) \<and>
                   battery_soc_percent r =
                     battery_capacity (fst (battery_block tr pf t v (vtype q) st)) /
                     max_battery (fst (battery_block tr pf t v (vtype q) st)) * 100
            else battery_data st' = battery_data st)"
proof -
  obtain b st1 where bb: "battery_block tr pf t v (vtype q) st = (b, st1)"
    by (cases "battery_block tr pf t v (vtype q) st")
  from battery_block_keeps[OF bb] have
    k: "battery_data st1 = battery_data st"
    by blast
  show ?thesis
    using assms bb k
    by (simp add: collect_vehicle_def collect_vehicle_body_def add_battery_record_eq
        track_trip_def Let_def)
qed

text \<open>
  C8. The three ratios never raise: the average speed of a trip is the route length
  over the duration when the duration is positive and 0 otherwise, and the battery
  percentage of \<open>read_battery_data\<close> and of \<open>_collect_data\<close> is capacity over maximum
  times 100 when the maximum is positive and 0 otherwise. These are the values that
  are printed and stored. A trip entry that is printed shows, in its average-speed
  line, the guarded quotient of the converted route length and duration, and
  \<open>read_tripinfo_data\<close> prints these entries after its heading; a battery line that
  is printed shows the guarded percentage of the converted capacities, and
  \<open>read_battery_data\<close> prints these lines under the time of their timestep. The
  battery row that \<open>_collect_data\<close> stores carries capacity over maximum times 100,
  and the charging event it records carries the guarded percentage. No trip entry and
  no battery line fails with a division by zero, and building a battery row never
  fails.
\<close>

theorem ratios_are_guarded:
  "avg_speed_of route_length duration =
     Inr (if duration > 0 then route_length / duration else 0) \<and>
   battery_percent_of bc mc = Inr (if mc > 0 then bc / mc * 100 else 0) \<and>
   soc_percent_of bc mc = Inr (if mc > 0 then bc / mc * 100 else 0) \<and>
   (\<forall>outs e. tripinfo_entry pf el = (outs, Inl e) \<longrightarrow> e \<noteq> ZeroDivisionError) \<and>
   (\<forall>outs e. battery_vehicle pf el = (outs, Inl e) \<longrightarrow> e \<noteq> ZeroDivisionError) \<and>
   snd (add_battery_record simulation_time veh_id q b st) = None \<and>
   (\<forall>outs u. tripinfo_entry pf el = (outs, Inr u) \<longrightarrow>
      (\<exists>vid vty depart arrival dur len max_speed.
         get_attr el ''id'' = Some vid \<and> get_attr el ''vType'' = Some vty \<and>
         py_float pf (get_attr el ''depart'') = ([], Inr depart) \<and>
         py_float pf (get_attr el ''arrival'') = ([], Inr arrival) \<and>
         py_float pf (get_attr el ''duration'') = ([], Inr dur) \<and>
         py_float pf (get_attr el ''routeLength'') = ([], Inr len) \<and>
         py_float pf (get_attr el ''maxSpeed'') = ([], Inr max_speed) \<and>
         outs =
           [Line ''{veh_id:8} [{veh_type:8}]'' [S vid, S vty],
            Line ''   Distance: {route_length:8.1f}m'' [F len],
            Line ''   Duration: {duration:8.1f}s'' [F dur],
            Line ''   Avg Speed: {avg_speed:6.1f}m/s'' [F (if dur > 0 then len / dur else 0)],
            Line ''   Max Speed: {max_speed:6.1f}m/s'' [F max_speed],
            Line ''   Depart: {depart:6.1f}s - Arrive: {arrival:6.1f}s'' [F depart, F arrival],
            Line (replicate 50 CHR ''-'') []])) \<and>
   (\<forall>outs u. battery_vehicle pf el = (outs, Inr u) \<longrightarrow>
      (\<exists>vid used cap mx.
         get_attr el ''id'' = Some vid \<and>
         py_float_default pf (get_attr el ''energyConsumed'') 0 = ([], Inr used) \<and>
         py_float_default pf (get_attr el ''actualBatteryCapacity'') 0 = ([], Inr cap) \<and>
         py_float_default pf (get_attr el ''maximumBatteryCapacity'') 100000 = ([], Inr mx) \<and>
         outs =
           [Line ''{veh_id:8} Battery: {battery_percent:5.1f}% ({battery_capacity:8.0f}Wh) Energy Used: {energy_consumed:8.1f}Wh''
              [S vid, F (if mx > 0 then cap / mx * 100 else 0), F cap, F used]])) \<and>
   (\<forall>sz troot. fs p = Some (sz, Document troot) \<and>
      (\<forall>t\<in>set (findall troot ''tripinfo''). snd (tripinfo_entry pf t) = Inr ()) \<longrightarrow>
      read_tripinfo_data pf fs p =
        ([Line (replicate 80 CHR ''='') [],
          Line ''TRIP SUMMARY DATA (Distance, Duration, Speed)'' [],
          Line (replicate 80 CHR ''='') []] @
         concat (map (\<lambda>t. fst (tripinfo_entry pf t)) (findall troot ''tripinfo'')),
         Inr ())) \<and>
   (\<forall>step_time. py_float pf (get_attr el ''time'') = ([], Inr step_time) \<and>
      (\<forall>v\<in>set (findall el ''vehicle''). snd (battery_vehicle pf v) = Inr ()) \<longrightarrow>
      battery_timestep pf el =
        (if findall el ''vehicle'' = [] then []
         else [Line ''Time: {step_time:.1f}s'' [F step_time],
               Line (replicate 60 CHR ''-'') []] @
              concat (map (\<lambda>v. fst (battery_vehicle pf v)) (findall el ''vehicle'')),
         Inr ())) \<and>
   (\<forall>sz troot. fs p = Some (sz, Document troot) \<and>
      (\<forall>ts\<in>set (findall troot ''timestep''). snd (battery_timestep pf ts) = Inr ()) \<longrightarrow>
      read_battery_data pf fs p =
        ([Line (replicate 80 CHR ''='') [],
          Line ''BATTERY DATA (Charge Levels, Energy Consumption)'' [],
          Line (replicate 80 CHR ''='') []] @
         concat (map (\<lambda>ts. fst (battery_timestep pf ts)) (findall troot ''timestep'')),
         Inr ())) \<and>
   add_battery_record simulation_time veh_id q b st =
     (if max_battery b > 0
      then (st\<lparr>battery_data := battery_data st @
              [\<lparr>timestep_sec = simulation_time, vehicle_id = veh_id, vehicle_type = vtype q,
                speed_ms = speed q, speed_kmh = speed q * 3.6,
                x_position_m = fst (position q), y_position_m = snd (position q),
                lane = lane_id q, distance_traveled_m = distance q,
                waiting_time_sec = waiting_time q,
                actualBatteryCapacity_Wh = battery_capacity b,
                maximumBatteryCapacity_Wh = max_battery b,
                battery_soc_percent = battery_capacity b / max_battery b * 100,
                totalEnergyConsumed_Wh = energy_consumed b,
                totalEnergyRegenerated_Wh = energy_regen b,
                netEnergyUsed_Wh = energy_consumed b - energy_regen b,
                chargingStationId = charging_station b\<rparr>]\<rparr>, None)
      else (st, None)) \<and>
   (\<forall>cap mx used regen sid.
      float_parameter tr pf veh_id ''device.battery.actualBatteryCapacity'' = Inr cap \<and>
      float_parameter tr pf veh_id ''device.battery.maximumBatteryCapacity'' = Inr mx \<and>
      float_parameter tr pf veh_id ''device.battery.totalEnergyConsumed'' = Inr used \<and>
      float_parameter tr pf veh_id ''device.battery.totalEnergyRegenerated'' = Inr regen \<and>
      getParameter tr veh_id ''device.battery.chargingStationId'' = Inr sid \<and>
      sid \<noteq> [] \<and> sid \<noteq> ''NULL'' \<longrightarrow>
      battery_block tr pf simulation_time veh_id ty st =
        (\<lparr>battery_capacity = cap, max_battery = mx, energy_consumed = used,
          energy_regen = regen, charging_station = sid\<rparr>,
         st\<lparr>charging_events := charging_events st @
           [\<lparr>ce_timestep = simulation_time, ce_vehicle_id = veh_id, ce_vehicle_type = ty,
             ce_charging_station = sid,
             ce_battery_soc_percent = (if mx > 0 then cap / mx * 100 else 0)\<rparr>]\<rparr>)) \<and>
   (\<forall>q'. basic_queries tr veh_id = Inr q' \<longrightarrow>
      (\<exists>st'. collect_vehicle tr pf simulation_time veh_id st = ([], st') \<and>
         charging_events st' =
           charging_events (snd (battery_block tr pf simulation_time veh_id (vtype q') st)) \<and>
         (if max_battery (fst (battery_block tr pf simulation_time veh_id (vtype q') st)) > 0
          then \<exists>r. battery_data st' = battery_data st @ [r] \<and>
                 actualBatteryCapacity_Wh r =
                   battery_capacity
                     (fst (battery_block tr pf simulation_time veh_id (vtype q') st)) \<and>
                 maximumBatteryCapacity_Wh r =
                   max_battery
                     (fst (battery_block tr pf simulation_time veh_id (vtype q') st)) \<and>
                 battery_soc_percent r =
                   battery_capacity
                     (fst (battery_block tr pf simulation_time veh_id (vtype q') st)) /
                   max_battery
                     (fst (battery_block tr pf simulation_time veh_id (vtype q') st)) * 100
          else battery_data st' = battery_data st)))"
proof -
  have c6: "snd (add_battery_record simulation_time veh_id q b st) = None"
    by (simp add: add_battery_record_eq)
  have c4: "\<forall>outs e. tripinfo_entry pf el = (outs, Inl e) \<longrightarrow> e \<noteq> ZeroDivisionError"
    using tripinfo_entry_Inl by blast
  have c5: "\<forall>outs e. battery_vehicle pf el = (outs, Inl e) \<longrightarrow> e \<noteq> ZeroDivisionError"
    using battery_vehicle_Inl by blast
  have c7: "\<forall>outs u. tripinfo_entry pf el = (outs, Inr u) \<longrightarrow>
      (\<exists>vid vty depart arrival dur len max_speed.
         get_attr el ''id'' = Some vid \<and> get_attr el ''vType'' = Some vty \<and>
         py_float pf (get_attr el ''depart'') = ([], Inr depart) \<and>
         py_float pf (get_attr el ''arrival'') = ([], Inr arrival) \<and>
         py_float pf (get_attr el ''duration'') = ([], Inr dur) \<and>
         py_float pf (get_attr el ''routeLength'') = ([], Inr len) \<and>
         py_float pf (get_attr el ''maxSpeed'') = ([], Inr max_speed) \<and>
         outs =
           [Line ''{veh_id:8} [{veh_type:8}]'' [S vid, S vty],
            Line ''   Distance: {route_length:8.1f}m'' [F len],
            Line ''   Duration: {duration:8.1f}s'' [F dur],
            Line ''   Avg Speed: {avg_speed:6.1f}m/s'' [F (if dur > 0 then len / dur else 0)],
            Line ''   Max Speed: {max_speed:6.1f}m/s'' [F max_speed],
            Line ''   Depart: {depart:6.1f}s - Arrive: {arrival:6.1f}s'' [F depart, F arrival],
            Line (replicate 50 CHR ''-'') []])"
    by (intro allI impI) (rule tripinfo_entry_Inr)
  have c8: "\<forall>outs u. battery_vehicle pf el = (outs, Inr u) \<longrightarrow>
      (\<exists>vid used cap mx.
         get_attr el ''id'' = Some vid \<and>
         py_float_default pf (get_attr el ''energyConsumed'') 0 = ([], Inr used) \<and>
         py_float_default pf (get_attr el ''actualBatteryCapacity'') 0 = ([], Inr cap) \<and>
         py_float_default pf (get_attr el ''maximumBatteryCapacity'') 100000 = ([], Inr mx) \<and>
         outs =
           [Line ''{veh_id:8} Battery: {battery_percent:5.1f}% ({battery_capacity:8.0f}Wh) Energy Used: {energy_consumed:8.1f}Wh''
              [S vid, F (if mx > 0 then cap / mx * 100 else 0), F cap, F used]])"
    by (intro allI impI) (rule battery_vehicle_Inr)
  have c9: "\<forall>sz troot. fs p = Some (sz, Document troot) \<and>
      (\<forall>t\<in>set (findall troot ''tripinfo''). snd (tripinfo_entry pf t) = Inr ()) \<longrightarrow>
      read_tripinfo_data pf fs p =
        ([Line (replicate 80 CHR ''='') [],
          Line ''TRIP SUMMARY DATA (Distance, Duration, Speed)'' [],
          Line (replicate 80 CHR ''='') []] @
         concat (map (\<lambda>t. fst (tripinfo_entry pf t)) (findall troot ''tripinfo'')),
         Inr ())"
    using read_tripinfo_data_ok by blast
  have c10: "\<forall>step_time. py_float pf (get_attr el ''time'') = ([], Inr step_time) \<and>
      (\<forall>v\<in>set (findall el ''vehicle''). snd (battery_vehicle pf v) = Inr ()) \<longrightarrow>
      battery_timestep pf el =
        (if findall el ''vehicle'' = [] then []
         else [Line ''Time: {step_time:.1f}s'' [F step_time],
               Line (replicate 60 CHR ''-'') []] @
              concat (map (\<lambda>v. fst (battery_vehicle pf v)) (findall el ''vehicle'')),
         Inr ())"
    using battery_timestep_ok by blast
  have c11: "\<forall>sz troot. fs p = Some (sz, Document troot) \<and>
      (\<forall>ts\<in>set (findall troot ''timestep''). snd (battery_timestep pf ts) = Inr ()) \<longrightarrow>
      read_battery_data pf fs p =
        ([Line (replicate 80 CHR ''='') [],
          Line ''BATTERY DATA (Charge Levels, Energy Consumption)'' [],
          Line (replicate 80 CHR ''='') []] @
         concat (map (\<lambda>ts. fst (battery_timestep pf ts)) (findall troot ''timestep'')),
         Inr ())"
    using read_battery_data_ok by blast
  have c13: "\<forall>cap mx used regen sid.
      float_parameter tr pf veh_id ''device.battery.actualBatteryCapacity'' = Inr cap \<and>
      float_parameter tr pf veh_id ''device.battery.maximumBatteryCapacity'' = Inr mx \<and>
      float_parameter tr pf veh_id ''device.battery.totalEnergyConsumed'' = Inr used \<and>
      float_parameter tr pf veh_id ''device.battery.totalEnergyRegenerated'' = Inr regen \<and>
      getParameter tr veh_id ''device.battery.chargingStationId'' = Inr sid \<and>
      sid \<noteq> [] \<and> sid \<noteq> ''NULL'' \<longrightarrow>
      battery_block tr pf simulation_time veh_id ty st =
        (\<lparr>battery_capacity = cap, max_battery = mx, energy_consumed = used,
          energy_regen = regen, charging_station = sid\<rparr>,
         st\<lparr>charging_events := charging_events st @
           [\<lparr>ce_timestep = simulation_time, ce_vehicle_id = veh_id, ce_vehicle_type = ty,
             ce_charging_station = sid,
             ce_battery_soc_percent = (if mx > 0 then cap / mx * 100 else 0)\<rparr>]\<rparr>)"
    using battery_block_event by blast
  have c14: "\<forall>q'. basic_queries tr veh_id = Inr q' \<longrightarrow>
      (\<exists>st'. collect_vehicle tr pf simulation_time veh_id st = ([], st') \<and>
         charging_events st' =
           charging_events (snd (battery_block tr pf simulation_time veh_id (vtype q') st)) \<and>
         (if max_battery (fst (battery_block tr pf simulation_time veh_id (vtype q') st)) > 0
          then \<exists>r. battery_data st' = battery_data st @ [r] \<and>
                 actualBatteryCapacity_Wh r =
                   battery_capacity
                     (fst (battery_block tr pf simulation_time veh_id (vtype q') st)) \<and>
                 maximumBatteryCapacity_Wh r =
                   max_battery
                     (fst (battery_block tr pf simulation_time veh_id (vtype q') st)) \<and>
                 battery_soc_percent r =
                   battery_capacity
                     (fst (battery_block tr pf simulation_time veh_id (vtype q') st)) /
                   max_battery
                     (fst (battery_block tr pf simulation_time veh_id (vtype q') st)) * 100
          else battery_data st' = battery_data st))"
    by (intro allI impI) (rule collect_vehicle_stores)
  show ?thesis
    by (intro conjI)
      (rule avg_speed_of_eq battery_percent_of_eq soc_percent_of_eq c4 c5 c6 c7 c8 c9 c10
        c11 add_battery_record_eq c13 c14)+
qed

theorem ratios_are_guarded_witness:
  "avg_speed_of 120 0 = Inr 0 \<and> avg_speed_of 120 20 = Inr 6 \<and>
   battery_percent_of 40 0 = Inr 0 \<and> soc_percent_of 40 100 = Inr 40 \<and>
   tripinfo_entry decimal_float (Element ''tripinfo'' [] []) = ([], Inl TypeError) \<and>
   TypeError \<noteq> ZeroDivisionError \<and>
   battery_vehicle decimal_float (Element ''vehicle'' [] []) = ([], Inl TypeError) \<and>
   snd (tripinfo_entry decimal_float moving_trip) = Inr () \<and>
   snd (tripinfo_entry decimal_float still_trip) = Inr () \<and>
   read_tripinfo_data decimal_float trips_fs ''tripinfo.xml'' =
     ([Line (replicate 80 CHR ''='') [],
       Line ''TRIP SUMMARY DATA (Distance, Duration, Speed)'' [],
       Line (replicate 80 CHR ''='') [],
       Line ''{veh_id:8} [{veh_type:8}]'' [S ''ev2'', S ''car''],
       Line ''   Distance: {route_length:8.1f}m'' [F 120],
       Line ''   Duration: {duration:8.1f}s'' [F 20],
       Line ''   Avg Speed: {avg_speed:6.1f}m/s'' [F 6],
       Line ''   Max Speed: {max_speed:6.1f}m/s'' [F 9],
       Line ''   Depart: {depart:6.1f}s - Arrive: {arrival:6.1f}s'' [F 0, F 20],
       Line (replicate 50 CHR ''-'') [],
       Line ''{veh_id:8} [{veh_type:8}]'' [S ''ev1'', S ''car''],
       Line ''   Distance: {route_length:8.1f}m'' [F 120],
       Line ''   Duration: {duration:8.1f}s'' [F 0],
       Line ''   Avg Speed: {avg_speed:6.1f}m/s'' [F 0],
       Line ''   Max Speed: {max_speed:6.1f}m/s'' [F 9],
       Line ''   Depart: {depart:6.1f}s - Arrive: {arrival:6.1f}s'' [F 3, F 3],
       Line (replicate 50 CHR ''-'') []], Inr ()) \<and>
   read_battery_data decimal_float trips_fs ''battery.xml'' =
     ([Line (replicate 80 CHR ''='') [],
       Line ''BATTERY DATA (Charge Levels, Energy Consumption)'' [],
       Line (replicate 80 CHR ''='') [],
       Line ''Time: {step_time:.1f}s'' [F 1],
       Line (replicate 60 CHR ''-'') [],
       Line ''{veh_id:8} Battery: {battery_percent:5.1f}% ({battery_capacity:8.0f}Wh) Energy Used: {energy_consumed:8.1f}Wh''
         [S ''ev2'', F 50, F 40, F 3],
       Line ''{veh_id:8} Battery: {battery_percent:5.1f}% ({battery_capacity:8.0f}Wh) Energy Used: {energy_consumed:8.1f}Wh''
         [S ''ev1'', F 0, F 40, F 2]], Inr ()) \<and>
   map (\<lambda>r. (actualBatteryCapacity_Wh r, maximumBatteryCapacity_Wh r, battery_soc_percent r))
     (battery_data (snd (collect_vehicle demo_traci decimal_float 1 ''ev1'' demo_exporter))) =
     [(40, 100, 40)] \<and>
   map (\<lambda>c. (ce_charging_station c, ce_battery_soc_percent c))
     (charging_events (snd (collect_vehicle demo_traci decimal_float 1 ''ev1'' demo_exporter))) =
     [(''cs1'', 40)]"
proof -
  have a: "tripinfo_entry decimal_float (Element ''tripinfo'' [] []) = ([], Inl TypeError)"
    by (simp add: tripinfo_entry_def run_defs)
  have b: "battery_vehicle decimal_float (Element ''vehicle'' [] []) = ([], Inl TypeError)"
    by (simp add: battery_vehicle_def battery_percent_of_def py_div_def run_defs)
  have t: "tripinfo_entry decimal_float moving_trip =
     ([Line ''{veh_id:8} [{veh_type:8}]'' [S ''ev2'', S ''car''],
       Line ''   Distance: {route_length:8.1f}m'' [F 120],
       Line ''   Duration: {duration:8.1f}s'' [F 20],
       Line ''   Avg Speed: {avg_speed:6.1f}m/s'' [F 6],
       Line ''   Max Speed: {max_speed:6.1f}m/s'' [F 9],
       Line ''   Depart: {depart:6.1f}s - Arrive: {arrival:6.1f}s'' [F 0, F 20],
       Line (replicate 50 CHR ''-'') []], Inr ())"
    "tripinfo_entry decimal_float still_trip =
     ([Line ''{veh_id:8} [{veh_type:8}]'' [S ''ev1'', S ''car''],
       Line ''   Distance: {route_length:8.1f}m'' [F 120],
       Line ''   Duration: {duration:8.1f}s'' [F 0],
       Line ''   Avg Speed: {avg_speed:6.1f}m/s'' [F 0],
       Line ''   Max Speed: {max_speed:6.1f}m/s'' [F 9],
       Line ''   Depart: {depart:6.1f}s - Arrive: {arrival:6.1f}s'' [F 3, F 3],
       Line (replicate 50 CHR ''-'') []], Inr ())"
    by (simp_all add: tripinfo_entry_def moving_trip_def still_trip_def avg_speed_of_def
        py_div_def run_defs)
  have v: "battery_vehicle decimal_float half_vehicle =
     ([Line ''{veh_id:8} Battery: {battery_percent:5.1f}% ({battery_capacity:8.0f}Wh) Energy Used: {energy_consumed:8.1f}Wh''
         [S ''ev2'', F 50, F 40, F 3]], Inr ())"
    "battery_vehicle decimal_float flat_vehicle =
     ([Line ''{veh_id:8} Battery: {battery_percent:5.1f}% ({battery_capacity:8.0f}Wh) Energy Used: {energy_consumed:8.1f}Wh''
         [S ''ev1'', F 0, F 40, F 2]], Inr ())"
    by (simp_all add: battery_vehicle_def half_vehicle_def flat_vehicle_def
        battery_percent_of_def py_div_def run_defs)
  have f: "trips_fs ''tripinfo.xml'' =
      Some (300, Document (Element ''tripinfos'' [] [moving_trip, still_trip]))"
    "trips_fs ''battery.xml'' =
      Some (200, Document (Element ''battery-export'' []
        [Element ''timestep'' [(''time'', ''1'')] [half_vehicle, flat_vehicle]]))"
    by (simp_all add: trips_fs_def)
  have tg: "tag moving_trip = ''tripinfo''" "tag still_trip = ''tripinfo''"
    "tag half_vehicle = ''vehicle''" "tag flat_vehicle = ''vehicle''"
    by (simp_all add: moving_trip_def still_trip_def half_vehicle_def flat_vehicle_def)
  have ts: "py_float decimal_float
      (get_attr (Element ''timestep'' [(''time'', ''1'')] [half_vehicle, flat_vehicle]) ''time'')
      = ([], Inr 1)"
    by (simp add: run_defs)
  note g1 = ratios_are_guarded[where route_length = 120 and duration = 20 and bc = 40
      and mc = 100 and pf = decimal_float
      and el = "Element ''timestep'' [(''time'', ''1'')] [half_vehicle, flat_vehicle]"
      and simulation_time = 1 and veh_id = "''ev1''"
      and q = "\<lparr>speed = 10, position = (3, 4), lane_id = ''E0_0'', distance = 25,
                waiting_time = 0, vtype = ''ev''\<rparr>"
      and b = "\<lparr>battery_capacity = 40, max_battery = 100, energy_consumed = 5,
                energy_regen = 1, charging_station = ''cs1''\<rparr>"
      and st = demo_exporter and fs = trips_fs and p = "''tripinfo.xml''"
      and tr = demo_traci and ty = "''ev''"]
  note g2 = ratios_are_guarded[where route_length = 120 and duration = 0 and bc = 40
      and mc = 0 and pf = decimal_float and el = moving_trip
      and simulation_time = 1 and veh_id = "''ev1''"
      and q = "\<lparr>speed = 10, position = (3, 4), lane_id = ''E0_0'', distance = 25,
                waiting_time = 0, vtype = ''ev''\<rparr>"
      and b = "\<lparr>battery_capacity = 40, max_battery = 100, energy_consumed = 5,
                energy_regen = 1, charging_station = ''cs1''\<rparr>"
      and st = demo_exporter and fs = trips_fs and p = "''battery.xml''"
      and tr = demo_traci and ty = "''ev''"]
  have step: "battery_timestep decimal_float
      (Element ''timestep'' [(''time'', ''1'')] [half_vehicle, flat_vehicle]) =
      ([Line ''Time: {step_time:.1f}s'' [F 1], Line (replicate 60 CHR ''-'') []] @
       fst (battery_vehicle decimal_float half_vehicle) @
       fst (battery_vehicle decimal_float flat_vehicle), Inr ())"
    using g1[THEN conjunct2, THEN conjunct2, THEN conjunct2, THEN conjunct2, THEN conjunct2, THEN conjunct2, THEN conjunct2, THEN conjunct2, THEN conjunct2, THEN conjunct1, THEN spec[where x = 1]] ts v
    by (simp add: findall_def tg)
  have trips: "read_tripinfo_data decimal_float trips_fs ''tripinfo.xml'' =
      ([Line (replicate 80 CHR ''='') [],
        Line ''TRIP SUMMARY DATA (Distance, Duration, Speed)'' [],
        Line (replicate 80 CHR ''='') []] @
       fst (tripinfo_entry decimal_float moving_trip) @
       fst (tripinfo_entry decimal_float still_trip), Inr ())"
    using g1[THEN conjunct2, THEN conjunct2, THEN conjunct2, THEN conjunct2, THEN conjunct2, THEN conjunct2, THEN conjunct2, THEN conjunct2, THEN conjunct1, THEN spec[where x = 300],
        THEN spec[where x = "Element ''tripinfos'' [] [moving_trip, still_trip]"]] f t
    by (simp add: findall_def tg)
  have batt: "read_battery_data decimal_float trips_fs ''battery.xml'' =
      ([Line (replicate 80 CHR ''='') [],
        Line ''BATTERY DATA (Charge Levels, Energy Consumption)'' [],
        Line (replicate 80 CHR ''='') []] @
       fst (battery_timestep decimal_float
         (Element ''timestep'' [(''time'', ''1'')] [half_vehicle, flat_vehicle])), Inr ())"
    using g2[THEN conjunct2, THEN conjunct2, THEN conjunct2, THEN conjunct2, THEN conjunct2, THEN conjunct2, THEN conjunct2, THEN conjunct2, THEN conjunct2, THEN conjunct2, THEN conjunct1,
        THEN spec[where x = 200],
        THEN spec[where x = "Element ''battery-export'' []
          [Element ''timestep'' [(''time'', ''1'')] [half_vehicle, flat_vehicle]]"]] f step
    by (simp add: findall_def)
  have c: "map (\<lambda>r. (actualBatteryCapacity_Wh r, maximumBatteryCapacity_Wh r,
        battery_soc_percent r))
     (battery_data (snd (collect_vehicle demo_traci decimal_float 1 ''ev1'' demo_exporter))) =
     [(40, 100, 40)]"
    "map (\<lambda>c. (ce_charging_station c, ce_battery_soc_percent c))
     (charging_events (snd (collect_vehicle demo_traci decimal_float 1 ''ev1'' demo_exporter))) =
     [(''cs1'', 40)]"
    by (simp_all add: collect_defs)
  have r: "avg_speed_of 120 0 = Inr 0" "avg_speed_of 120 20 = Inr 6"
    "battery_percent_of 40 0 = Inr 0" "soc_percent_of 40 100 = Inr 40"
    using g1[THEN conjunct1] g2[THEN conjunct1] g2[THEN conjunct2, THEN conjunct1]
      g1[THEN conjunct2, THEN conjunct2, THEN conjunct1]
    by simp_all
  from a b t v trips batt step c r show ?thesis by simp
qed

end
